theory Spec2Isabelle
  imports Complex_Main "HOL-Library.Sublist" "HOL-Library.Multiset"
begin

section \<open>JavaScript values used by the engine\<close>

text \<open>
  A string is the list of its UTF-16 code units, each an integer from 0 to 65535;
  \<open>str\<close> turns an ASCII literal into such a list. \<^verbatim>\<open>trim\<close>, \<^verbatim>\<open>split\<close>, \<^verbatim>\<open>includes\<close> and the
  regular expressions of the engine work on code units, \<^verbatim>\<open>toLowerCase\<close> on code points.

  JavaScript numbers are modelled as exact rationals: \<^verbatim>\<open>/\<close> and \<^verbatim>\<open>*\<close> are the field
  operations, the constants \<^verbatim>\<open>0.5\<close>, \<^verbatim>\<open>0.3\<close>, \<^verbatim>\<open>0.2\<close> and \<^verbatim>\<open>0.6\<close> are the fractions they
  denote, and \<^verbatim>\<open>Math.round\<close> rounds to the nearest integer with halves going up. The
  rounding error of double arithmetic is not modelled: the code computes
  \<^verbatim>\<open>(23 / 40) * 100\<close> as \<^verbatim>\<open>57.49999999999999\<close>, where the exact value is \<open>57.5\<close>.
\<close>

type_synonym js_string = "int list"

definition ch :: "char \<Rightarrow> int" where
  "ch c = of_char c"

definition str :: "string \<Rightarrow> js_string" where
  "str s = map ch s"

definition Math_round :: "rat \<Rightarrow> int" where
  "Math_round x = \<lfloor>x + 1 / 2\<rfloor>"

text \<open>
  The white space of \<^verbatim>\<open>trim\<close> and of \<^verbatim>\<open>\s\<close>: tab, line feed, vertical tab, form feed,
  carriage return, space, no-break space, the other space separators, the line and
  paragraph separators and the byte order mark.
\<close>

definition isWhiteSpace :: "int \<Rightarrow> bool" where
  "isWhiteSpace c \<longleftrightarrow>
     c \<in> set [9, 10, 11, 12, 13, 32, 160, 5760, 8232, 8233, 8239, 8287, 12288, 65279]
     \<or> (8192 \<le> c \<and> c \<le> 8202)"

subsection \<open>Lower case\<close>

text \<open>
  \<^verbatim>\<open>toLowerCase\<close> follows the default case conversion of Unicode. The tables are those
  of the Unicode Character Database, version 14.0, which the runtime carries: the
  lower case mapping of a code point (runs \<open>(first, last, step, offset)\<close>: every
  \<open>step\<close>-th code point from \<open>first\<close> to \<open>last\<close> maps to itself plus \<open>offset\<close>), the
  case-ignorable code points, and the cased code points that are not case-ignorable
  (ranges \<open>(first, last)\<close>). All are sorted.
\<close>

definition lower_table :: "(int \<times> int \<times> int \<times> int) list" where
  "lower_table =
     [
      (65, 90, 1, 32), (192, 214, 1, 32), (216, 222, 1, 32), (256, 302, 2, 1),
      (306, 310, 2, 1), (313, 327, 2, 1), (330, 374, 2, 1), (376, 376, 1, - 121),
      (377, 381, 2, 1), (385, 385, 1, 210), (386, 388, 2, 1), (390, 390, 1, 206),
      (391, 391, 1, 1), (393, 394, 1, 205), (395, 395, 1, 1), (398, 398, 1, 79),
      (399, 399, 1, 202), (400, 400, 1, 203), (401, 401, 1, 1), (403, 403, 1, 205),
      (404, 404, 1, 207), (406, 406, 1, 211), (407, 407, 1, 209), (408, 408, 1, 1),
      (412, 412, 1, 211), (413, 413, 1, 213), (415, 415, 1, 214), (416, 420, 2, 1),
      (422, 422, 1, 218), (423, 423, 1, 1), (425, 425, 1, 218), (428, 428, 1, 1),
      (430, 430, 1, 218), (431, 431, 1, 1), (433, 434, 1, 217), (435, 437, 2, 1),
      (439, 439, 1, 219), (440, 440, 1, 1), (444, 444, 1, 1), (452, 452, 1, 2),
      (453, 453, 1, 1), (455, 455, 1, 2), (456, 456, 1, 1), (458, 458, 1, 2),
      (459, 475, 2, 1), (478, 494, 2, 1), (497, 497, 1, 2), (498, 500, 2, 1),
      (502, 502, 1, - 97), (503, 503, 1, - 56), (504, 542, 2, 1), (544, 544, 1, - 130),
      (546, 562, 2, 1), (570, 570, 1, 10795), (571, 571, 1, 1), (573, 573, 1, - 163),
      (574, 574, 1, 10792), (577, 577, 1, 1), (579, 579, 1, - 195), (580, 580, 1, 69),
      (581, 581, 1, 71), (582, 590, 2, 1), (880, 882, 2, 1), (886, 886, 1, 1),
      (895, 895, 1, 116), (902, 902, 1, 38), (904, 906, 1, 37), (908, 908, 1, 64),
      (910, 911, 1, 63), (913, 929, 1, 32), (931, 939, 1, 32), (975, 975, 1, 8),
      (984, 1006, 2, 1), (1012, 1012, 1, - 60), (1015, 1015, 1, 1), (1017, 1017, 1, - 7),
      (1018, 1018, 1, 1), (1021, 1023, 1, - 130), (1024, 1039, 1, 80), (1040, 1071, 1, 32),
      (1120, 1152, 2, 1), (1162, 1214, 2, 1), (1216, 1216, 1, 15), (1217, 1229, 2, 1),
      (1232, 1326, 2, 1), (1329, 1366, 1, 48), (4256, 4293, 1, 7264), (4295, 4295, 1, 7264),
      (4301, 4301, 1, 7264), (5024, 5103, 1, 38864), (5104, 5109, 1, 8), (7312, 7354, 1, - 3008),
      (7357, 7359, 1, - 3008), (7680, 7828, 2, 1), (7838, 7838, 1, - 7615), (7840, 7934, 2, 1),
      (7944, 7951, 1, - 8), (7960, 7965, 1, - 8), (7976, 7983, 1, - 8), (7992, 7999, 1, - 8),
      (8008, 8013, 1, - 8), (8025, 8031, 2, - 8), (8040, 8047, 1, - 8), (8072, 8079, 1, - 8),
      (8088, 8095, 1, - 8), (8104, 8111, 1, - 8), (8120, 8121, 1, - 8), (8122, 8123, 1, - 74),
      (8124, 8124, 1, - 9), (8136, 8139, 1, - 86), (8140, 8140, 1, - 9), (8152, 8153, 1, - 8),
      (8154, 8155, 1, - 100), (8168, 8169, 1, - 8), (8170, 8171, 1, - 112), (8172, 8172, 1, - 7),
      (8184, 8185, 1, - 128), (8186, 8187, 1, - 126), (8188, 8188, 1, - 9), (8486, 8486, 1, - 7517),
      (8490, 8490, 1, - 8383), (8491, 8491, 1, - 8262), (8498, 8498, 1, 28), (8544, 8559, 1, 16),
      (8579, 8579, 1, 1), (9398, 9423, 1, 26), (11264, 11311, 1, 48), (11360, 11360, 1, 1),
      (11362, 11362, 1, - 10743), (11363, 11363, 1, - 3814), (11364, 11364, 1, - 10727), (11367, 11371, 2, 1),
      (11373, 11373, 1, - 10780), (11374, 11374, 1, - 10749), (11375, 11375, 1, - 10783), (11376, 11376, 1, - 10782),
      (11378, 11378, 1, 1), (11381, 11381, 1, 1), (11390, 11391, 1, - 10815), (11392, 11490, 2, 1),
      (11499, 11501, 2, 1), (11506, 11506, 1, 1), (42560, 42604, 2, 1), (42624, 42650, 2, 1),
      (42786, 42798, 2, 1), (42802, 42862, 2, 1), (42873, 42875, 2, 1), (42877, 42877, 1, - 35332),
      (42878, 42886, 2, 1), (42891, 42891, 1, 1), (42893, 42893, 1, - 42280), (42896, 42898, 2, 1),
      (42902, 42920, 2, 1), (42922, 42922, 1, - 42308), (42923, 42923, 1, - 42319), (42924, 42924, 1, - 42315),
      (42925, 42925, 1, - 42305), (42926, 42926, 1, - 42308), (42928, 42928, 1, - 42258), (42929, 42929, 1, - 42282),
      (42930, 42930, 1, - 42261), (42931, 42931, 1, 928), (42932, 42946, 2, 1), (42948, 42948, 1, - 48),
      (42949, 42949, 1, - 42307), (42950, 42950, 1, - 35384), (42951, 42953, 2, 1), (42960, 42960, 1, 1),
      (42966, 42968, 2, 1), (42997, 42997, 1, 1), (65313, 65338, 1, 32), (66560, 66599, 1, 40),
      (66736, 66771, 1, 40), (66928, 66938, 1, 39), (66940, 66954, 1, 39), (66956, 66962, 1, 39),
      (66964, 66965, 1, 39), (68736, 68786, 1, 64), (71840, 71871, 1, 32), (93760, 93791, 1, 32),
      (125184, 125217, 1, 34)]"

definition cased_table :: "(int \<times> int) list" where
  "cased_table =
     [
      (65, 90), (97, 122), (170, 170), (181, 181), (186, 186), (192, 214),
      (216, 246), (248, 442), (444, 447), (452, 659), (661, 687), (880, 883),
      (886, 887), (891, 893), (895, 895), (902, 902), (904, 906), (908, 908),
      (910, 929), (931, 1013), (1015, 1153), (1162, 1327), (1329, 1366), (1376, 1416),
      (4256, 4293), (4295, 4295), (4301, 4301), (4304, 4346), (4349, 4351), (5024, 5109),
      (5112, 5117), (7296, 7304), (7312, 7354), (7357, 7359), (7424, 7467), (7531, 7543),
      (7545, 7578), (7680, 7957), (7960, 7965), (7968, 8005), (8008, 8013), (8016, 8023),
      (8025, 8025), (8027, 8027), (8029, 8029), (8031, 8061), (8064, 8116), (8118, 8124),
      (8126, 8126), (8130, 8132), (8134, 8140), (8144, 8147), (8150, 8155), (8160, 8172),
      (8178, 8180), (8182, 8188), (8450, 8450), (8455, 8455), (8458, 8467), (8469, 8469),
      (8473, 8477), (8484, 8484), (8486, 8486), (8488, 8488), (8490, 8493), (8495, 8500),
      (8505, 8505), (8508, 8511), (8517, 8521), (8526, 8526), (8544, 8575), (8579, 8580),
      (9398, 9449), (11264, 11387), (11390, 11492), (11499, 11502), (11506, 11507), (11520, 11557),
      (11559, 11559), (11565, 11565), (42560, 42605), (42624, 42651), (42786, 42863), (42865, 42887),
      (42891, 42894), (42896, 42954), (42960, 42961), (42963, 42963), (42965, 42969), (42997, 42998),
      (43002, 43002), (43824, 43866), (43872, 43880), (43888, 43967), (64256, 64262), (64275, 64279),
      (65313, 65338), (65345, 65370), (66560, 66639), (66736, 66771), (66776, 66811), (66928, 66938),
      (66940, 66954), (66956, 66962), (66964, 66965), (66967, 66977), (66979, 66993), (66995, 67001),
      (67003, 67004), (68736, 68786), (68800, 68850), (71840, 71903), (93760, 93823), (119808, 119892),
      (119894, 119964), (119966, 119967), (119970, 119970), (119973, 119974), (119977, 119980), (119982, 119993),
      (119995, 119995), (119997, 120003), (120005, 120069), (120071, 120074), (120077, 120084), (120086, 120092),
      (120094, 120121), (120123, 120126), (120128, 120132), (120134, 120134), (120138, 120144), (120146, 120485),
      (120488, 120512), (120514, 120538), (120540, 120570), (120572, 120596), (120598, 120628), (120630, 120654),
      (120656, 120686), (120688, 120712), (120714, 120744), (120746, 120770), (120772, 120779), (122624, 122633),
      (122635, 122654), (125184, 125251), (127280, 127305), (127312, 127337), (127344, 127369)]"

definition ignorable_table :: "(int \<times> int) list" where
  "ignorable_table =
     [
      (39, 39), (46, 46), (58, 58), (94, 94), (96, 96), (168, 168),
      (173, 173), (175, 175), (180, 180), (183, 184), (688, 879), (884, 885),
      (890, 890), (900, 901), (903, 903), (1155, 1161), (1369, 1369), (1375, 1375),
      (1425, 1469), (1471, 1471), (1473, 1474), (1476, 1477), (1479, 1479), (1524, 1524),
      (1536, 1541), (1552, 1562), (1564, 1564), (1600, 1600), (1611, 1631), (1648, 1648),
      (1750, 1757), (1759, 1768), (1770, 1773), (1807, 1807), (1809, 1809), (1840, 1866),
      (1958, 1968), (2027, 2037), (2042, 2042), (2045, 2045), (2070, 2093), (2137, 2139),
      (2184, 2184), (2192, 2193), (2200, 2207), (2249, 2306), (2362, 2362), (2364, 2364),
      (2369, 2376), (2381, 2381), (2385, 2391), (2402, 2403), (2417, 2417), (2433, 2433),
      (2492, 2492), (2497, 2500), (2509, 2509), (2530, 2531), (2558, 2558), (2561, 2562),
      (2620, 2620), (2625, 2626), (2631, 2632), (2635, 2637), (2641, 2641), (2672, 2673),
      (2677, 2677), (2689, 2690), (2748, 2748), (2753, 2757), (2759, 2760), (2765, 2765),
      (2786, 2787), (2810, 2815), (2817, 2817), (2876, 2876), (2879, 2879), (2881, 2884),
      (2893, 2893), (2901, 2902), (2914, 2915), (2946, 2946), (3008, 3008), (3021, 3021),
      (3072, 3072), (3076, 3076), (3132, 3132), (3134, 3136), (3142, 3144), (3146, 3149),
      (3157, 3158), (3170, 3171), (3201, 3201), (3260, 3260), (3263, 3263), (3270, 3270),
      (3276, 3277), (3298, 3299), (3328, 3329), (3387, 3388), (3393, 3396), (3405, 3405),
      (3426, 3427), (3457, 3457), (3530, 3530), (3538, 3540), (3542, 3542), (3633, 3633),
      (3636, 3642), (3654, 3662), (3761, 3761), (3764, 3772), (3782, 3782), (3784, 3789),
      (3864, 3865), (3893, 3893), (3895, 3895), (3897, 3897), (3953, 3966), (3968, 3972),
      (3974, 3975), (3981, 3991), (3993, 4028), (4038, 4038), (4141, 4144), (4146, 4151),
      (4153, 4154), (4157, 4158), (4184, 4185), (4190, 4192), (4209, 4212), (4226, 4226),
      (4229, 4230), (4237, 4237), (4253, 4253), (4348, 4348), (4957, 4959), (5906, 5908),
      (5938, 5939), (5970, 5971), (6002, 6003), (6068, 6069), (6071, 6077), (6086, 6086),
      (6089, 6099), (6103, 6103), (6109, 6109), (6155, 6159), (6211, 6211), (6277, 6278),
      (6313, 6313), (6432, 6434), (6439, 6440), (6450, 6450), (6457, 6459), (6679, 6680),
      (6683, 6683), (6742, 6742), (6744, 6750), (6752, 6752), (6754, 6754), (6757, 6764),
      (6771, 6780), (6783, 6783), (6823, 6823), (6832, 6862), (6912, 6915), (6964, 6964),
      (6966, 6970), (6972, 6972), (6978, 6978), (7019, 7027), (7040, 7041), (7074, 7077),
      (7080, 7081), (7083, 7085), (7142, 7142), (7144, 7145), (7149, 7149), (7151, 7153),
      (7212, 7219), (7222, 7223), (7288, 7293), (7376, 7378), (7380, 7392), (7394, 7400),
      (7405, 7405), (7412, 7412), (7416, 7417), (7468, 7530), (7544, 7544), (7579, 7679),
      (8125, 8125), (8127, 8129), (8141, 8143), (8157, 8159), (8173, 8175), (8189, 8190),
      (8203, 8207), (8216, 8217), (8228, 8228), (8231, 8231), (8234, 8238), (8288, 8292),
      (8294, 8303), (8305, 8305), (8319, 8319), (8336, 8348), (8400, 8432), (11388, 11389),
      (11503, 11505), (11631, 11631), (11647, 11647), (11744, 11775), (11823, 11823), (12293, 12293),
      (12330, 12333), (12337, 12341), (12347, 12347), (12441, 12446), (12540, 12542), (40981, 40981),
      (42232, 42237), (42508, 42508), (42607, 42610), (42612, 42621), (42623, 42623), (42652, 42655),
      (42736, 42737), (42752, 42785), (42864, 42864), (42888, 42890), (42994, 42996), (43000, 43001),
      (43010, 43010), (43014, 43014), (43019, 43019), (43045, 43046), (43052, 43052), (43204, 43205),
      (43232, 43249), (43263, 43263), (43302, 43309), (43335, 43345), (43392, 43394), (43443, 43443),
      (43446, 43449), (43452, 43453), (43471, 43471), (43493, 43494), (43561, 43566), (43569, 43570),
      (43573, 43574), (43587, 43587), (43596, 43596), (43632, 43632), (43644, 43644), (43696, 43696),
      (43698, 43700), (43703, 43704), (43710, 43711), (43713, 43713), (43741, 43741), (43756, 43757),
      (43763, 43764), (43766, 43766), (43867, 43871), (43881, 43883), (44005, 44005), (44008, 44008),
      (44013, 44013), (64286, 64286), (64434, 64450), (65024, 65039), (65043, 65043), (65056, 65071),
      (65106, 65106), (65109, 65109), (65279, 65279), (65287, 65287), (65294, 65294), (65306, 65306),
      (65342, 65342), (65344, 65344), (65392, 65392), (65438, 65439), (65507, 65507), (65529, 65531),
      (66045, 66045), (66272, 66272), (66422, 66426), (67456, 67461), (67463, 67504), (67506, 67514),
      (68097, 68099), (68101, 68102), (68108, 68111), (68152, 68154), (68159, 68159), (68325, 68326),
      (68900, 68903), (69291, 69292), (69446, 69456), (69506, 69509), (69633, 69633), (69688, 69702),
      (69744, 69744), (69747, 69748), (69759, 69761), (69811, 69814), (69817, 69818), (69821, 69821),
      (69826, 69826), (69837, 69837), (69888, 69890), (69927, 69931), (69933, 69940), (70003, 70003),
      (70016, 70017), (70070, 70078), (70089, 70092), (70095, 70095), (70191, 70193), (70196, 70196),
      (70198, 70199), (70206, 70206), (70367, 70367), (70371, 70378), (70400, 70401), (70459, 70460),
      (70464, 70464), (70502, 70508), (70512, 70516), (70712, 70719), (70722, 70724), (70726, 70726),
      (70750, 70750), (70835, 70840), (70842, 70842), (70847, 70848), (70850, 70851), (71090, 71093),
      (71100, 71101), (71103, 71104), (71132, 71133), (71219, 71226), (71229, 71229), (71231, 71232),
      (71339, 71339), (71341, 71341), (71344, 71349), (71351, 71351), (71453, 71455), (71458, 71461),
      (71463, 71467), (71727, 71735), (71737, 71738), (71995, 71996), (71998, 71998), (72003, 72003),
      (72148, 72151), (72154, 72155), (72160, 72160), (72193, 72202), (72243, 72248), (72251, 72254),
      (72263, 72263), (72273, 72278), (72281, 72283), (72330, 72342), (72344, 72345), (72752, 72758),
      (72760, 72765), (72767, 72767), (72850, 72871), (72874, 72880), (72882, 72883), (72885, 72886),
      (73009, 73014), (73018, 73018), (73020, 73021), (73023, 73029), (73031, 73031), (73104, 73105),
      (73109, 73109), (73111, 73111), (73459, 73460), (78896, 78904), (92912, 92916), (92976, 92982),
      (92992, 92995), (94031, 94031), (94095, 94111), (94176, 94177), (94179, 94180), (110576, 110579),
      (110581, 110587), (110589, 110590), (113821, 113822), (113824, 113827), (118528, 118573), (118576, 118598),
      (119143, 119145), (119155, 119170), (119173, 119179), (119210, 119213), (119362, 119364), (121344, 121398),
      (121403, 121452), (121461, 121461), (121476, 121476), (121499, 121503), (121505, 121519), (122880, 122886),
      (122888, 122904), (122907, 122913), (122915, 122916), (122918, 122922), (123184, 123197), (123566, 123566),
      (123628, 123631), (125136, 125142), (125252, 125259), (127995, 127999), (917505, 917505), (917536, 917631),
      (917760, 917999)]"

fun in_ranges :: "int \<Rightarrow> (int \<times> int) list \<Rightarrow> bool" where
  "in_ranges c [] = False"
| "in_ranges c ((lo, hi) # rs) =
     (if c < lo then False else if c \<le> hi then True else in_ranges c rs)"

fun lookup_lower :: "int \<Rightarrow> (int \<times> int \<times> int \<times> int) list \<Rightarrow> int" where
  "lookup_lower c [] = c"
| "lookup_lower c ((lo, hi, step, d) # rs) =
     (if c < lo then c
      else if c \<le> hi then (if (c - lo) mod step = 0 then c + d else c)
      else lookup_lower c rs)"

definition isCaseIgnorable :: "int \<Rightarrow> bool" where
  "isCaseIgnorable c = in_ranges c ignorable_table"

text \<open>Asked only of a code point that is not case-ignorable.\<close>

definition isCased :: "int \<Rightarrow> bool" where
  "isCased c = in_ranges c cased_table"

text \<open>
  The lower case of one code point out of context. Capital I with dot above
  (\<open>304\<close>) becomes \<open>i\<close> and a combining dot above.
\<close>

definition lowerMapping :: "int \<Rightarrow> int list" where
  "lowerMapping c = (if c = 304 then [105, 775] else [lookup_lower c lower_table])"

text \<open>The code points of a string: a lead surrogate followed by a trail surrogate is one.\<close>

definition isLeadSurrogate :: "int \<Rightarrow> bool" where
  "isLeadSurrogate c \<longleftrightarrow> 55296 \<le> c \<and> c \<le> 56319"

definition isTrailSurrogate :: "int \<Rightarrow> bool" where
  "isTrailSurrogate c \<longleftrightarrow> 56320 \<le> c \<and> c \<le> 57343"

fun codePoints :: "js_string \<Rightarrow> int list" where
  "codePoints [] = []"
| "codePoints [c] = [c]"
| "codePoints (h # l # cs) =
     (if isLeadSurrogate h \<and> isTrailSurrogate l
      then (65536 + (h - 55296) * 1024 + (l - 56320)) # codePoints cs
      else h # codePoints (l # cs))"

definition codeUnits :: "int list \<Rightarrow> js_string" where
  "codeUnits cps =
     concat (map (\<lambda>cp. if cp < 65536 then [cp]
                         else [55296 + (cp - 65536) div 1024, 56320 + (cp - 65536) mod 1024]) cps)"

text \<open>
  Capital sigma (\<open>931\<close>) is the one code point whose lower case depends on its place:
  it becomes final sigma (\<open>962\<close>) when, skipping case-ignorable code points, a cased
  one stands before it and none stands behind it, and small sigma (\<open>963\<close>) otherwise.
  \<open>pre\<close> holds the code points in front, nearest first, \<open>post\<close> those behind.
\<close>

definition isFinalSigma :: "int list \<Rightarrow> int list \<Rightarrow> bool" where
  "isFinalSigma pre post \<longleftrightarrow>
     (case dropWhile isCaseIgnorable pre of [] \<Rightarrow> False | b # _ \<Rightarrow> isCased b)
     \<and> (case dropWhile isCaseIgnorable post of [] \<Rightarrow> True | d # _ \<Rightarrow> \<not> isCased d)"

fun lowerCodePoints :: "int list \<Rightarrow> int list \<Rightarrow> int list" where
  "lowerCodePoints pre [] = []"
| "lowerCodePoints pre (c # post) =
     (if c = 931 then (if isFinalSigma pre post then [962] else [963])
      else lowerMapping c)
     @ lowerCodePoints (c # pre) post"

definition toLowerCase :: "js_string \<Rightarrow> js_string" where
  "toLowerCase s = codeUnits (lowerCodePoints [] (codePoints s))"

definition trim :: "js_string \<Rightarrow> js_string" where
  "trim s = rev (dropWhile isWhiteSpace (rev (dropWhile isWhiteSpace s)))"

text \<open>\<^verbatim>\<open>s.split(sep)\<close> for a one-character separator: the empty string gives one empty piece.\<close>

fun split_char :: "int \<Rightarrow> js_string \<Rightarrow> js_string list" where
  "split_char sep [] = [[]]"
| "split_char sep (c # cs) =
     (if c = sep then [] # split_char sep cs
      else (case split_char sep cs of
              p # ps \<Rightarrow> (c # p) # ps
            | [] \<Rightarrow> [[c]]))"

text \<open>\<^verbatim>\<open>s.split(/\s+/)\<close>: the pieces between maximal runs of white space.\<close>

function split_ws :: "js_string \<Rightarrow> js_string list" where
  "split_ws [] = [[]]"
| "split_ws (c # cs) =
     (if isWhiteSpace c then [] # split_ws (dropWhile isWhiteSpace cs)
      else (case split_ws cs of
              p # ps \<Rightarrow> (c # p) # ps
            | [] \<Rightarrow> [[c]]))"
  by pat_completeness auto
termination
  by (relation "measure length") (auto simp: length_dropWhile_le less_Suc_eq_le)

text \<open>\<^verbatim>\<open>s.includes(k)\<close>: \<open>k\<close> occurs in \<open>s\<close> as a contiguous piece.\<close>

fun str_includes :: "js_string \<Rightarrow> js_string \<Rightarrow> bool" where
  "str_includes [] k \<longleftrightarrow> k = []"
| "str_includes (c # cs) k \<longleftrightarrow> prefix k (c # cs) \<or> str_includes cs k"

definition isTerminator :: "int \<Rightarrow> bool" where
  "isTerminator c \<longleftrightarrow> c = (ch (CHR ''.'')) \<or> c = (ch (CHR ''!'')) \<or> c = (ch (CHR ''?''))"

text \<open>\<^verbatim>\<open>s.match(/[.!?]+/g) || []\<close>: the maximal runs of sentence punctuation, left to right.\<close>

function match_terminators :: "js_string \<Rightarrow> js_string list" where
  "match_terminators [] = []"
| "match_terminators (c # cs) =
     (if isTerminator c
      then (c # takeWhile isTerminator cs) # match_terminators (dropWhile isTerminator cs)
      else match_terminators cs)"
  by pat_completeness auto
termination
  by (relation "measure length") (auto simp: length_dropWhile_le less_Suc_eq_le)

text \<open>\<^verbatim>\<open>xs.join(sep)\<close>.\<close>

fun join :: "js_string \<Rightarrow> js_string list \<Rightarrow> js_string" where
  "join sep [] = []"
| "join sep [x] = x"
| "join sep (x # y # ys) = x @ sep @ join sep (y # ys)"

section \<open>Feedback service: rule-based answer evaluation\<close>

record question_row =
  expected_keywords :: "js_string option"
  ideal_answer :: "js_string option"

record evaluation =
  score :: int
  keywordScore :: int
  matchedKeywords :: "js_string list"
  missedKeywords :: "js_string list"
  wordCount :: nat
  strengths :: "js_string list"
  weaknesses :: "js_string list"
  suggestions :: "js_string list"
  feedback :: js_string

text \<open>\<^verbatim>\<open>(answer || '').toLowerCase().trim()\<close>; an absent answer is \<open>None\<close>.\<close>

definition answerText :: "js_string option \<Rightarrow> js_string" where
  "answerText answer = trim (toLowerCase (case answer of Some a \<Rightarrow> a | None \<Rightarrow> []))"

text \<open>\<^verbatim>\<open>(question.expected_keywords || '').toLowerCase().split(',').map(k => k.trim())\<close>\<close>

definition expectedKeywords_of :: "js_string option \<Rightarrow> js_string list" where
  "expectedKeywords_of kws =
     map trim (split_char (ch (CHR '','')) (toLowerCase (case kws of Some k \<Rightarrow> k | None \<Rightarrow> [])))"

definition matched_of :: "js_string \<Rightarrow> js_string list \<Rightarrow> js_string list" where
  "matched_of text kws = filter (\<lambda>keyword. str_includes text keyword) kws"

definition missed_of :: "js_string \<Rightarrow> js_string list \<Rightarrow> js_string list" where
  "missed_of text kws = filter (\<lambda>k. \<not> str_includes text k) kws"

text \<open>The unrounded local \<^verbatim>\<open>keywordScore\<close> of \<^verbatim>\<open>evaluateAnswer\<close>.\<close>

definition keywordScore_raw :: "js_string option \<Rightarrow> js_string option \<Rightarrow> rat" where
  "keywordScore_raw answer kws =
     (let expectedKeywords = expectedKeywords_of kws;
          matched = matched_of (answerText answer) expectedKeywords
      in if length expectedKeywords > 0
         then (of_nat (length matched) / of_nat (length expectedKeywords)) * 100
         else 0)"

definition wordCount_of :: "js_string \<Rightarrow> nat" where
  "wordCount_of text = length (filter (\<lambda>w. length w > 0) (split_ws text))"

definition lengthScore :: "nat \<Rightarrow> rat" where
  "lengthScore wc =
     (if wc \<ge> 30 \<and> wc \<le> 500 then 100
      else if wc \<ge> 15 \<and> wc < 30 then 60
      else if wc > 500 then 70
      else if wc \<ge> 5 then 40
      else 0)"

definition sentenceCount :: "js_string \<Rightarrow> nat" where
  "sentenceCount text = length (match_terminators text)"

definition structureScore :: "js_string \<Rightarrow> rat" where
  "structureScore text = (if sentenceCount text \<ge> 2 then 100 else 50)"

definition generateFeedbackText :: "int \<Rightarrow> js_string list \<Rightarrow> js_string list \<Rightarrow> js_string" where
  "generateFeedbackText sc strs weaks =
     (let f0 = (if sc \<ge> 80 then str ''Excellent answer! ''
                else if sc \<ge> 60 then str ''Good answer with room for improvement. ''
                else if sc \<ge> 40 then str ''Decent attempt, but needs more depth. ''
                else str ''This answer needs significant improvement. '');
          f1 = (if length strs > 0 then f0 @ str ''Strengths: '' @ join (str '', '') strs @ str ''. '' else f0)
      in if length weaks > 0 then f1 @ str ''Areas to improve: '' @ join (str '', '') weaks @ str ''.'' else f1)"

definition evaluateAnswer :: "js_string option \<Rightarrow> question_row \<Rightarrow> evaluation" where
  "evaluateAnswer answer q =
     (let text = answerText answer;
          expectedKeywords = expectedKeywords_of (expected_keywords q);
          matched = matched_of text expectedKeywords;
          kwScore = keywordScore_raw answer (expected_keywords q);
          wc = wordCount_of text;
          lenScore = lengthScore wc;
          hasStructure = (sentenceCount text \<ge> 2);
          overallScore = Math_round (kwScore * (1 / 2) + lenScore * (3 / 10)
                                       + structureScore text * (2 / 10));
          strengths1 = (if kwScore \<ge> 70 then [str ''Good coverage of key concepts''] else []);
          weaknesses1 = (if kwScore \<ge> 70 then []
                         else if kwScore \<ge> 40 then [str ''Some important concepts were missing'']
                         else [str ''Many key concepts were not addressed'']);
          strengths2 = (if lenScore \<ge> 80 then strengths1 @ [str ''Answer has good depth and detail'']
                        else strengths1);
          weaknesses2 = (if lenScore \<ge> 80 then weaknesses1
                         else if wc < 30 then weaknesses1 @ [str ''Answer could be more detailed'']
                         else if wc > 500 then weaknesses1 @ [str ''Answer could be more concise'']
                         else weaknesses1);
          strengths3 = (if hasStructure then strengths2 @ [str ''Well-structured response'']
                        else strengths2);
          weaknesses3 = (if hasStructure then weaknesses2
                         else weaknesses2 @ [str ''Consider structuring your answer with multiple points'']);
          missed = missed_of text expectedKeywords;
          suggestions1 = (if length missed > 0
                          then [str ''Consider discussing: '' @ join (str '', '') (take 3 missed)]
                          else []);
          suggestions2 = (if wc < 30 then suggestions1 @ [str ''Provide more examples and explanations'']
                          else suggestions1);
          suggestions3 = (if \<not> hasStructure
                          then suggestions2 @ [str ''Break your answer into clear points or steps'']
                          else suggestions2)
      in \<lparr> score = overallScore,
           keywordScore = Math_round kwScore,
           matchedKeywords = matched,
           missedKeywords = missed,
           wordCount = wc,
           strengths = strengths3,
           weaknesses = weaknesses3,
           suggestions = suggestions3,
           feedback = generateFeedbackText overallScore strengths3 weaknesses3 \<rparr>)"

section \<open>Configuration\<close>

text \<open>\<^verbatim>\<open>process.env\<close> is a map from variable names to strings.\<close>

type_synonym process_env = "js_string \<Rightarrow> js_string option"

record chat_model =
  baseUrl :: js_string
  modelName :: js_string
  temperature :: rat
  numPredict :: nat

definition isAIEnabled :: "process_env \<Rightarrow> bool" where
  "isAIEnabled env \<longleftrightarrow> env (str ''AI_ENABLED'') = Some (str ''true'')"

definition truthy :: "js_string option \<Rightarrow> bool" where
  "truthy v = (case v of Some s \<Rightarrow> s \<noteq> [] | None \<Rightarrow> False)"

text \<open>\<^verbatim>\<open>a || b\<close> on strings that may be absent.\<close>

definition js_or :: "js_string option \<Rightarrow> js_string option \<Rightarrow> js_string option" where
  "js_or a b = (if truthy a then a else b)"

definition getOllamaBaseUrl :: "process_env \<Rightarrow> js_string" where
  "getOllamaBaseUrl env =
     (case js_or (env (str ''OLLAMA_BASE_URL'')) (Some (str ''http://localhost:11434'')) of
        Some u \<Rightarrow> u | None \<Rightarrow> [])"

definition getModelName :: "process_env \<Rightarrow> js_string" where
  "getModelName env =
     (case js_or (env (str ''OLLAMA_MODEL'')) (Some (str ''llama3.2'')) of Some u \<Rightarrow> u | None \<Rightarrow> [])"

definition createModel :: "process_env \<Rightarrow> rat \<Rightarrow> nat \<Rightarrow> chat_model option" where
  "createModel env temp np =
     (if \<not> isAIEnabled env then None
      else Some \<lparr> baseUrl = getOllamaBaseUrl env, modelName = getModelName env,
                  temperature = temp, numPredict = (if np = 0 then 20 else np) \<rparr>)"

definition shouldFallback :: "process_env \<Rightarrow> bool" where
  "shouldFallback env \<longleftrightarrow> env (str ''AI_FALLBACK_TO_RULES'') \<noteq> Some (str ''false'')"

section \<open>Question documents\<close>

record metadata =
  category :: js_string
  role :: js_string
  topic :: js_string
  difficulty :: js_string
  expectedKeywords :: "js_string list"
  idealAnswer :: "js_string option"
  timeLimit :: nat

record question_doc =
  q_id :: js_string
  content :: js_string
  metadata :: metadata

section \<open>Answer evaluator: model score blended with the rules\<close>

text \<open>
  The model client is external. One call of \<^verbatim>\<open>chain.invoke\<close> either throws or returns the
  model's text; the outcome of the call is a parameter of the functions that make it. The
  prompt only reaches the model, so it is not built here. The field \<^verbatim>\<open>this.model\<close> of an
  evaluator or selector is the \<open>model\<close> parameter; \<^verbatim>\<open>initModel\<close> returns its new value.
\<close>

datatype error = Error js_string | TypeError

type_synonym invoke_result = "error + js_string"

record ai_evaluation =
  ai_score :: int
  ai_feedback :: js_string
  ai_strengths :: "js_string list"
  ai_weaknesses :: "js_string list"
  keyConceptsCovered :: "js_string list"
  keyConceptsMissed :: "js_string list"
  ai_suggestions :: "js_string list"
  ai_evaluationMethod :: js_string

record evaluation_result = evaluation +
  evaluationMethod :: js_string

text \<open>The question handed to the evaluator is a document of the store or a database row.\<close>

datatype question_arg = Document question_doc | Row question_row

definition isDigit :: "int \<Rightarrow> bool" where
  "isDigit c \<longleftrightarrow> c \<in> set (str ''0123456789'')"

definition digitValue :: "int \<Rightarrow> int" where
  "digitValue c = (case map_of (zip (str ''0123456789'') [0, 1, 2, 3, 4, 5, 6, 7, 8, 9]) c of
                     Some d \<Rightarrow> d | None \<Rightarrow> 0)"

text \<open>\<^verbatim>\<open>response.match(/\d+/)\<close>: the first maximal run of digits, if there is one.\<close>

definition match_digits :: "js_string \<Rightarrow> js_string option" where
  "match_digits s =
     (let r = dropWhile (\<lambda>c. \<not> isDigit c) s
      in if r = [] then None else Some (takeWhile isDigit r))"

text \<open>\<^verbatim>\<open>parseInt\<close> on a string of decimal digits.\<close>

definition parseInt :: "js_string \<Rightarrow> int" where
  "parseInt ds = foldl (\<lambda>n c. 10 * n + digitValue c) 0 ds"

definition AnswerEvaluator_initModel :: "chat_model option \<Rightarrow> process_env \<Rightarrow> chat_model option" where
  "AnswerEvaluator_initModel model env =
     (if model = None \<and> isAIEnabled env then createModel env (1 / 10) 60 else model)"

definition aiEvaluate :: "invoke_result \<Rightarrow> error + ai_evaluation" where
  "aiEvaluate reply =
     (case reply of
        Inl e \<Rightarrow> Inl e
      | Inr response \<Rightarrow>
          (case match_digits response of
             None \<Rightarrow> Inl (Error (str ''Could not extract score from AI response''))
           | Some numberMatch \<Rightarrow>
               Inr \<lparr> ai_score = min 100 (max 0 (parseInt numberMatch)),
                     ai_feedback = str ''Evaluated by AI'',
                     ai_strengths = [], ai_weaknesses = [],
                     keyConceptsCovered = [], keyConceptsMissed = [],
                     ai_suggestions = [], ai_evaluationMethod = str ''ai'' \<rparr>))"

definition blendEvaluations :: "ai_evaluation \<Rightarrow> evaluation \<Rightarrow> evaluation_result" where
  "blendEvaluations aiEval ruleEval =
     \<lparr> score = Math_round (of_int (ai_score aiEval) * (1 / 2) + of_int (score ruleEval) * (1 / 2)),
       keywordScore = keywordScore ruleEval,
       matchedKeywords = matchedKeywords ruleEval,
       missedKeywords = missedKeywords ruleEval,
       wordCount = wordCount ruleEval,
       strengths = strengths ruleEval,
       weaknesses = weaknesses ruleEval,
       suggestions = suggestions ruleEval,
       feedback = (if feedback ruleEval \<noteq> [] then feedback ruleEval else str ''Answer evaluated''),
       evaluationMethod = str ''ai-blended'' \<rparr>"

text \<open>\<^verbatim>\<open>{ ...ruleEvaluation, evaluationMethod: m }\<close>\<close>

definition with_method :: "evaluation \<Rightarrow> js_string \<Rightarrow> evaluation_result" where
  "with_method ruleEval m =
     \<lparr> score = score ruleEval,
       keywordScore = keywordScore ruleEval,
       matchedKeywords = matchedKeywords ruleEval,
       missedKeywords = missedKeywords ruleEval,
       wordCount = wordCount ruleEval,
       strengths = strengths ruleEval,
       weaknesses = weaknesses ruleEval,
       suggestions = suggestions ruleEval,
       feedback = feedback ruleEval,
       evaluationMethod = m \<rparr>"

text \<open>
  The rule question built by \<^verbatim>\<open>AnswerEvaluator.evaluateAnswer\<close>:
  \<^verbatim>\<open>question.metadata?.expectedKeywords?.join(',') || question.expected_keywords || ''\<close>,
  and the same for the ideal answer.
\<close>

definition rule_question :: "question_arg \<Rightarrow> question_row" where
  "rule_question qa =
     (case qa of
        Document d \<Rightarrow>
          \<lparr> expected_keywords =
              js_or (js_or (Some (join (str '','') (expectedKeywords (metadata d)))) None) (Some []),
            ideal_answer = js_or (js_or (idealAnswer (metadata d)) None) (Some []) \<rparr>
      | Row r \<Rightarrow>
          \<lparr> expected_keywords = js_or (js_or None (expected_keywords r)) (Some []),
            ideal_answer = js_or (js_or None (ideal_answer r)) (Some []) \<rparr>)"

definition AnswerEvaluator_evaluateAnswer ::
  "chat_model option \<Rightarrow> process_env \<Rightarrow> invoke_result \<Rightarrow> js_string option \<Rightarrow> question_arg
     \<Rightarrow> error + evaluation_result" where
  "AnswerEvaluator_evaluateAnswer model env reply answer qa =
     (let ruleEvaluation = evaluateAnswer answer (rule_question qa)
      in if AnswerEvaluator_initModel model env \<noteq> None
         then (case aiEvaluate reply of
                 Inr aiEvaluation \<Rightarrow> Inr (blendEvaluations aiEvaluation ruleEvaluation)
               | Inl e \<Rightarrow>
                   if shouldFallback env then Inr (with_method ruleEvaluation (str ''fallback''))
                   else Inl e)
         else Inr (with_method ruleEvaluation (str ''rules'')))"

section \<open>Question store\<close>

text \<open>
  The store reads the question bank through a cache; \<open>allQuestions\<close> below is the list
  that \<^verbatim>\<open>getAllQuestions()\<close> returns during the call.
\<close>

definition getFilteredQuestions ::
  "question_doc list \<Rightarrow> js_string option \<Rightarrow> js_string option \<Rightarrow> js_string option \<Rightarrow> js_string list
     \<Rightarrow> question_doc list" where
  "getFilteredQuestions allQuestions role_f difficulty_f category_f excludeIds =
     filter (\<lambda>q.
        if q_id q \<in> set excludeIds then False
        else if truthy role_f \<and> Some (role (metadata q)) \<noteq> role_f \<and> role (metadata q) \<noteq> str ''any''
          then False
        else if truthy difficulty_f \<and> Some (difficulty (metadata q)) \<noteq> difficulty_f then False
        else if truthy category_f \<and> Some (category (metadata q)) \<noteq> category_f then False
        else True) allQuestions"

text \<open>The topics of the answered questions, each once, in the order first met.\<close>

definition getSessionTopicsCovered :: "question_doc list \<Rightarrow> js_string list \<Rightarrow> js_string list" where
  "getSessionTopicsCovered allQuestions answeredIds =
     foldl (\<lambda>topics i.
        case find (\<lambda>q. q_id q = i) allQuestions of
          Some q \<Rightarrow> (if topic (metadata q) \<in> set topics then topics
                     else topics @ [topic (metadata q)])
        | None \<Rightarrow> topics) [] answeredIds"

section \<open>Question selector\<close>

record sessionContext =
  ctx_role :: "js_string option"
  ctx_difficulty :: "js_string option"
  answeredQuestionIds :: "js_string list"
  totalQuestions :: nat
  recentScores :: "rat list"

record selection =
  question :: question_doc
  reasoning :: js_string
  suggestedDifficulty :: "js_string option"
  selectionMethod :: js_string

definition QuestionSelector_initModel :: "chat_model option \<Rightarrow> process_env \<Rightarrow> chat_model option" where
  "QuestionSelector_initModel model env =
     (if model = None \<and> isAIEnabled env then createModel env (2 / 10) 40 else model)"

text \<open>\<^verbatim>\<open>xs.indexOf(x)\<close>: the first position of \<open>x\<close>, or \<open>-1\<close>.\<close>

fun indexOf :: "'a list \<Rightarrow> 'a \<Rightarrow> int" where
  "indexOf [] x = - 1"
| "indexOf (y # ys) x =
     (if y = x then 0 else (let i = indexOf ys x in if i < 0 then - 1 else i + 1))"

text \<open>
  \<^verbatim>\<open>xs.sort(cmp)\<close>. The language fixes the result for a consistent comparator: the sort
  is stable. The model is the insertion sort that puts each element before the first
  element of the sorted rest that does not compare below it.
\<close>

fun insert_cmp :: "('a \<Rightarrow> 'a \<Rightarrow> int) \<Rightarrow> 'a \<Rightarrow> 'a list \<Rightarrow> 'a list" where
  "insert_cmp cmp x [] = [x]"
| "insert_cmp cmp x (y # ys) =
     (if cmp x y \<le> 0 then x # y # ys else y # insert_cmp cmp x ys)"

definition sort_cmp :: "('a \<Rightarrow> 'a \<Rightarrow> int) \<Rightarrow> 'a list \<Rightarrow> 'a list" where
  "sort_cmp cmp xs = foldr (insert_cmp cmp) xs []"

text \<open>
  \<^verbatim>\<open>xs[Math.floor(Math.random() * xs.length)]\<close> with \<open>r\<close> the number drawn; the
  callers read a property of the element at once, which raises a \<^verbatim>\<open>TypeError\<close> when
  the position is outside the list. The language draws \<open>r\<close> from \<open>[0, 1)\<close>, and then
  every path draws at most once.
\<close>

definition random_element :: "'a list \<Rightarrow> rat \<Rightarrow> error + 'a" where
  "random_element xs r =
     (let i = \<lfloor>r * of_nat (length xs)\<rfloor>
      in if 0 \<le> i \<and> i < int (length xs) then Inr (xs ! nat i) else Inl TypeError)"

definition avgScore_of :: "rat list \<Rightarrow> rat" where
  "avgScore_of scores =
     (if length scores > 0 then foldl (\<lambda>a b. a + b) 0 scores / of_nat (length scores) else 50)"

definition difficultyOrder :: "rat \<Rightarrow> js_string list" where
  "difficultyOrder avg =
     (if avg \<ge> 70 then [str ''hard'', str ''medium'', str ''easy'']
      else if avg \<ge> 50 then [str ''medium'', str ''easy'', str ''hard'']
      else [str ''easy'', str ''medium'', str ''hard''])"

text \<open>The candidate list of \<^verbatim>\<open>smartFallbackSelect\<close> before and after its sort.\<close>

definition fallback_candidates ::
  "question_doc list \<Rightarrow> sessionContext \<Rightarrow> question_doc list \<Rightarrow> question_doc list" where
  "fallback_candidates allQuestions ctx availableQuestions =
     (let topicsCovered = getSessionTopicsCovered allQuestions (answeredQuestionIds ctx);
          candidates = filter (\<lambda>q. topic (metadata q) \<notin> set topicsCovered)
                         availableQuestions
      in if length candidates = 0 then availableQuestions else candidates)"

definition sorted_candidates ::
  "question_doc list \<Rightarrow> sessionContext \<Rightarrow> question_doc list \<Rightarrow> question_doc list" where
  "sorted_candidates allQuestions ctx availableQuestions =
     (let order = difficultyOrder (avgScore_of (recentScores ctx))
      in sort_cmp (\<lambda>a b. indexOf order (difficulty (metadata a))
                          - indexOf order (difficulty (metadata b)))
           (fallback_candidates allQuestions ctx availableQuestions))"

definition smartFallbackSelect ::
  "question_doc list \<Rightarrow> rat \<Rightarrow> sessionContext \<Rightarrow> question_doc list \<Rightarrow> error + selection" where
  "smartFallbackSelect allQuestions r ctx availableQuestions =
     (let candidates = sorted_candidates allQuestions ctx availableQuestions;
          topCandidates = take (min 3 (length candidates)) candidates
      in case random_element topCandidates r of
           Inl e \<Rightarrow> Inl e
         | Inr selected \<Rightarrow>
             Inr \<lparr> question = selected,
                   reasoning = str ''Selected based on topic diversity and difficulty appropriateness'',
                   suggestedDifficulty = Some (difficulty (metadata selected)),
                   selectionMethod = str ''fallback'' \<rparr>)"

definition randomSelect :: "rat \<Rightarrow> question_doc list \<Rightarrow> error + selection" where
  "randomSelect r questions =
     (case random_element questions r of
        Inl e \<Rightarrow> Inl e
      | Inr selected \<Rightarrow>
          Inr \<lparr> question = selected,
                reasoning = str ''Randomly selected from available questions'',
                suggestedDifficulty = Some (difficulty (metadata selected)),
                selectionMethod = str ''random'' \<rparr>)"

definition aiSelect ::
  "question_doc list \<Rightarrow> invoke_result \<Rightarrow> rat \<Rightarrow> sessionContext \<Rightarrow> question_doc list
     \<Rightarrow> error + selection" where
  "aiSelect allQuestions reply r ctx availableQuestions =
     (case reply of
        Inl e \<Rightarrow> Inl e
      | Inr response \<Rightarrow>
          (let responseText = trim response
           in case find (\<lambda>q. str_includes responseText (q_id q)) availableQuestions of
                Some selectedQuestion \<Rightarrow>
                  Inr \<lparr> question = selectedQuestion, reasoning = str ''AI selected'',
                        suggestedDifficulty = None, selectionMethod = str ''ai'' \<rparr>
              | None \<Rightarrow> smartFallbackSelect allQuestions r ctx availableQuestions))"

text \<open>\<open>Inr None\<close> is the \<^verbatim>\<open>null\<close> returned when no question is left; \<open>Inl\<close> is a throw.\<close>

definition selectNextQuestion ::
  "chat_model option \<Rightarrow> process_env \<Rightarrow> question_doc list \<Rightarrow> invoke_result \<Rightarrow> rat
     \<Rightarrow> sessionContext \<Rightarrow> error + selection option" where
  "selectNextQuestion model env allQuestions reply r ctx =
     (let availableQuestions =
            getFilteredQuestions allQuestions (ctx_role ctx) (ctx_difficulty ctx) None
              (answeredQuestionIds ctx)
      in if length availableQuestions = 0
         then (let fallbackQuestions =
                     getFilteredQuestions allQuestions (ctx_role ctx) None None
                       (answeredQuestionIds ctx)
               in if length fallbackQuestions = 0 then Inr None
                  else map_sum (\<lambda>e. e) Some (randomSelect r fallbackQuestions))
         else if QuestionSelector_initModel model env \<noteq> None
         then (case aiSelect allQuestions reply r ctx availableQuestions of
                 Inr res \<Rightarrow> Inr (Some res)
               | Inl e \<Rightarrow>
                   if shouldFallback env
                   then map_sum (\<lambda>e. e) Some
                          (smartFallbackSelect allQuestions r ctx availableQuestions)
                   else Inl e)
         else map_sum (\<lambda>e. e) Some (smartFallbackSelect allQuestions r ctx availableQuestions))"

section \<open>Session feedback\<close>

record answer_row =
  a_score :: "rat option"
  a_topic :: "js_string option"

record session_feedback =
  overallScore :: int
  topicScores :: "(js_string \<times> int) list"
  sf_strengths :: "js_string list"
  sf_weaknesses :: "js_string list"
  recommendations :: "js_string list"
  readinessScore :: int

text \<open>
  \<^verbatim>\<open>topicScores\<close> is an object used as a dictionary. Its keys are listed with the
  array-index keys first, in numeric order, then the others in insertion order.

  A topic that names a property every object inherits is found in the empty object
  already: the test \<^verbatim>\<open>!topicScores[a.topic]\<close> fails, no entry is made, and the
  additions go to the inherited value, so the topic never shows among the keys.
\<close>

definition inheritedNames :: "js_string list" where
  "inheritedNames =
     map str [''constructor'', ''__defineGetter__'', ''__defineSetter__'', ''hasOwnProperty'',
              ''__lookupGetter__'', ''__lookupSetter__'', ''isPrototypeOf'',
              ''propertyIsEnumerable'', ''toString'', ''valueOf'', ''__proto__'',
              ''toLocaleString'']"

definition isArrayIndex :: "js_string \<Rightarrow> bool" where
  "isArrayIndex k \<longleftrightarrow>
     k \<noteq> [] \<and> list_all isDigit k \<and> (length k = 1 \<or> hd k \<noteq> (ch (CHR ''0'')))
       \<and> parseInt k < 2 ^ 32 - 1"

definition object_entries :: "(js_string \<times> 'a) list \<Rightarrow> (js_string \<times> 'a) list" where
  "object_entries es =
     sort_key (\<lambda>e. parseInt (fst e)) (filter (\<lambda>e. isArrayIndex (fst e)) es)
       @ filter (\<lambda>e. \<not> isArrayIndex (fst e)) es"

text \<open>One step of the \<^verbatim>\<open>forEach\<close> that adds an answer to the total and count of its topic.\<close>

fun add_topic :: "js_string \<Rightarrow> rat \<Rightarrow> (js_string \<times> rat \<times> nat) list \<Rightarrow> (js_string \<times> rat \<times> nat) list" where
  "add_topic t s [] = [(t, 0 + s, 0 + 1)]"
| "add_topic t s ((t', tot, cnt) # es) =
     (if t' = t then (t', tot + s, cnt + 1) # es
      else (t', tot, cnt) # add_topic t s es)"

definition topic_totals :: "answer_row list \<Rightarrow> (js_string \<times> rat \<times> nat) list" where
  "topic_totals answers =
     foldl (\<lambda>acc a.
        if truthy (a_topic a)
        then (if the (a_topic a) \<in> set inheritedNames then acc
              else add_topic (the (a_topic a)) (case a_score a of Some s \<Rightarrow> s | None \<Rightarrow> 0) acc)
        else acc) [] answers"

definition calculateSessionFeedback :: "answer_row list option \<Rightarrow> session_feedback" where
  "calculateSessionFeedback answers_opt =
     (case answers_opt of
        None \<Rightarrow> \<lparr> overallScore = 0, topicScores = [], sf_strengths = [], sf_weaknesses = [],
                   recommendations = [], readinessScore = 0 \<rparr>
      | Some answers \<Rightarrow>
          if length answers = 0
          then \<lparr> overallScore = 0, topicScores = [], sf_strengths = [], sf_weaknesses = [],
                 recommendations = [], readinessScore = 0 \<rparr>
          else
            (let validScores = filter (\<lambda>a. a_score a \<noteq> None) answers;
                 overall = (if length validScores > 0
                            then Math_round (foldl (\<lambda>sum a. sum + the (a_score a)) 0 validScores
                                              / of_nat (length validScores))
                            else 0);
                 scores = map (\<lambda>(t, tot, cnt). (t, Math_round (tot / of_nat cnt)))
                            (object_entries (topic_totals answers));
                 strong = map fst (filter (\<lambda>(_, s). s \<ge> 70) scores);
                 weak = map fst (filter (\<lambda>(_, s). s < 50) scores);
                 recs1 = (if length weak > 0
                          then [str ''Focus on improving: '' @ join (str '', '') weak] else []);
                 recs2 = (if overall < 50
                          then recs1 @ [str ''Review fundamental concepts and practice more'']
                          else if overall < 70
                          then recs1 @ [str ''Good foundation, now work on depth and examples'']
                          else recs1 @ [str ''Strong performance! Try harder difficulty questions'']);
                 readiness = min 100 (Math_round (of_int overall * (6 / 10)
                                                  + of_nat (min (length answers) 10) * 4))
             in \<lparr> overallScore = overall, topicScores = scores, sf_strengths = strong,
                   sf_weaknesses = weak, recommendations = recs2, readinessScore = readiness \<rparr>))"

section \<open>Example inputs\<close>

definition example_env :: process_env where
  "example_env = [str ''AI_ENABLED'' \<mapsto> str ''true'', str ''AI_FALLBACK_TO_RULES'' \<mapsto> str ''false'']"

definition example_env_fallback :: process_env where
  "example_env_fallback = [str ''AI_ENABLED'' \<mapsto> str ''true'']"

definition example_env_disabled :: process_env where
  "example_env_disabled = [str ''AI_ENABLED'' \<mapsto> str ''false'', str ''AI_FALLBACK_TO_RULES'' \<mapsto> str ''false'']"

definition example_doc :: "js_string \<Rightarrow> js_string \<Rightarrow> js_string \<Rightarrow> question_doc" where
  "example_doc i d t =
     \<lparr> q_id = i, content = str ''Explain the event loop in JavaScript.'',
       metadata = \<lparr> category = str ''technical'', role = str ''frontend'', topic = t, difficulty = d,
                    expectedKeywords = [str ''call stack'', str ''promise''], idealAnswer = None,
                    timeLimit = 300 \<rparr> \<rparr>"

definition example_bank :: "question_doc list" where
  "example_bank =
     [example_doc (str ''q-1'') (str ''easy'') (str ''JavaScript Fundamentals''),
      example_doc (str ''q-2'') (str ''hard'') (str ''JavaScript Fundamentals''),
      example_doc (str ''q-3'') (str ''medium'') (str ''React''),
      example_doc (str ''q-4'') (str ''hard'') (str ''React''),
      example_doc (str ''q-5'') (str ''easy'') (str ''Architecture'')]"

definition example_ctx :: sessionContext where
  "example_ctx =
     \<lparr> ctx_role = Some (str ''frontend''), ctx_difficulty = Some (str ''easy''),
       answeredQuestionIds = [str ''q-1''], totalQuestions = 5, recentScores = [90, 85] \<rparr>"

definition example_ctx_medium :: sessionContext where
  "example_ctx_medium =
     \<lparr> ctx_role = Some (str ''frontend''), ctx_difficulty = Some (str ''medium''),
       answeredQuestionIds = [str ''q-3''], totalQuestions = 5, recentScores = [] \<rparr>"

section \<open>Properties of the string helpers and of the score components\<close>

lemma str_includes_iff_sublist: "str_includes s k \<longleftrightarrow> sublist k s"
  by (induction s) (auto simp: sublist_Cons_right)

lemma Math_round_mono: "x \<le> y \<Longrightarrow> Math_round x \<le> Math_round y"
  unfolding Math_round_def by (intro floor_mono) simp

lemma Math_round_of_int: "Math_round (of_int n) = n"
  unfolding Math_round_def by linarith


lemma keywordScore_raw_bounds: "0 \<le> keywordScore_raw a k \<and> keywordScore_raw a k \<le> 100"
proof -
  let ?e = "expectedKeywords_of k"
  let ?m = "matched_of (answerText a) ?e"
  have le: "length ?m \<le> length ?e" by (simp add: matched_of_def)
  show ?thesis
  proof (cases "length ?e > 0")
    case True
    define x :: rat where "x = of_nat (length ?m) / of_nat (length ?e)"
    have pos: "(0::rat) < of_nat (length ?e)" using True by simp
    have "(of_nat (length ?m) :: rat) \<le> of_nat (length ?e)" using le by simp
    then have "x \<le> 1" unfolding x_def using pos by (simp add: divide_le_eq_1)
    moreover have "0 \<le> x" unfolding x_def by simp
    moreover have "keywordScore_raw a k = x * 100"
      unfolding x_def keywordScore_raw_def Let_def using True by simp
    ultimately show ?thesis by simp
  next
    case False
    then show ?thesis by (simp add: keywordScore_raw_def Let_def)
  qed
qed

lemma lengthScore_bounds: "0 \<le> lengthScore n \<and> lengthScore n \<le> 100"
  by (simp add: lengthScore_def)

lemma structureScore_bounds: "50 \<le> structureScore t \<and> structureScore t \<le> 100"
  by (simp add: structureScore_def)

lemma score_eq:
  "score (evaluateAnswer a q) =
     Math_round (keywordScore_raw a (expected_keywords q) * (1 / 2)
       + lengthScore (wordCount_of (answerText a)) * (3 / 10)
       + structureScore (answerText a) * (2 / 10))"
  by (simp add: evaluateAnswer_def Let_def)

lemma score_bounds: "10 \<le> score (evaluateAnswer a q) \<and> score (evaluateAnswer a q) \<le> 100"
proof -
  let ?v = "keywordScore_raw a (expected_keywords q) * (1 / 2)
       + lengthScore (wordCount_of (answerText a)) * (3 / 10)
       + structureScore (answerText a) * (2 / 10)"
  have "10 \<le> ?v" "?v \<le> 100"
    using keywordScore_raw_bounds[of a "expected_keywords q"]
      lengthScore_bounds[of "wordCount_of (answerText a)"]
      structureScore_bounds[of "answerText a"] by linarith+
  then have "Math_round 10 \<le> Math_round ?v" "Math_round ?v \<le> Math_round 100"
    by (auto intro: Math_round_mono)
  moreover have "Math_round 10 = 10" "Math_round 100 = 100"
    using Math_round_of_int[of 10] Math_round_of_int[of 100] by simp_all
  ultimately show ?thesis by (simp add: score_eq)
qed

lemma matched_missed_fields:
  "matchedKeywords (evaluateAnswer a q) = matched_of (answerText a) (expectedKeywords_of (expected_keywords q))"
  "missedKeywords (evaluateAnswer a q) = missed_of (answerText a) (expectedKeywords_of (expected_keywords q))"
  by (simp_all add: evaluateAnswer_def Let_def)























lemma keywordScore_field:
  "keywordScore (evaluateAnswer a q) = Math_round (keywordScore_raw a (expected_keywords q))"
  by (simp add: evaluateAnswer_def Let_def)

lemma expectedKeywords_of_empty:
  "expectedKeywords_of None = [[]]" "expectedKeywords_of (Some []) = [[]]"
  by (simp_all add: expectedKeywords_of_def toLowerCase_def codeUnits_def trim_def)

lemma keywordScore_raw_empty:
  "keywordScore_raw a None = 100" "keywordScore_raw a (Some []) = 100"
  by (simp_all add: keywordScore_raw_def Let_def expectedKeywords_of_empty matched_of_def
        str_includes_iff_sublist)

lemma generateFeedbackText_nonempty: "generateFeedbackText sc strs weaks \<noteq> []"
  by (simp add: generateFeedbackText_def Let_def str_def)

lemma feedback_nonempty: "feedback (evaluateAnswer a q) \<noteq> []"
  by (simp add: evaluateAnswer_def Let_def generateFeedbackText_nonempty)

section \<open>Properties of the sort, the random pick and the selector paths\<close>

lemma mset_insert_cmp: "mset (insert_cmp cmp x ys) = add_mset x (mset ys)"
  by (induction ys) auto

lemma mset_sort_cmp: "mset (sort_cmp cmp xs) = mset xs"
  unfolding sort_cmp_def by (induction xs) (auto simp: mset_insert_cmp)

lemma set_sort_cmp: "set (sort_cmp cmp xs) = set xs"
  using mset_sort_cmp[of cmp xs] by (metis set_mset_mset)

lemma length_sort_cmp: "length (sort_cmp cmp xs) = length xs"
  using mset_sort_cmp[of cmp xs] by (metis size_mset)

lemma sorted_insert_key:
  fixes key :: "'a \<Rightarrow> int"
  assumes "sorted (map key ys)"
  shows "sorted (map key (insert_cmp (\<lambda>a b. key a - key b) x ys))"
  using assms
proof (induction ys)
  case Nil
  then show ?case by simp
next
  case (Cons y ys)
  let ?ins = "insert_cmp (\<lambda>a b. key a - key b) x ys"
  show ?case
  proof (cases "key x - key y \<le> 0")
    case True
    then show ?thesis using Cons.prems by auto
  next
    case False
    have "set ?ins = insert x (set ys)"
      using mset_insert_cmp[of "\<lambda>a b. key a - key b" x ys] by (metis set_mset_add_mset_insert set_mset_mset)
    then show ?thesis using False Cons by auto
  qed
qed

lemma sorted_sort_key:
  fixes key :: "'a \<Rightarrow> int"
  shows "sorted (map key (sort_cmp (\<lambda>a b. key a - key b) xs))"
  unfolding sort_cmp_def by (induction xs) (auto intro: sorted_insert_key)

lemma filter_insert_key:
  fixes key :: "'a \<Rightarrow> int"
  shows "filter (\<lambda>q. key q = k) (insert_cmp (\<lambda>a b. key a - key b) x ys) =
         (if key x = k then x # filter (\<lambda>q. key q = k) ys else filter (\<lambda>q. key q = k) ys)"
  by (induction ys) auto

lemma stable_sort_key:
  fixes key :: "'a \<Rightarrow> int"
  shows "filter (\<lambda>q. key q = k) (sort_cmp (\<lambda>a b. key a - key b) xs) = filter (\<lambda>q. key q = k) xs"
  unfolding sort_cmp_def by (induction xs) (auto simp: filter_insert_key)

lemma random_element_in:
  assumes "random_element xs r = Inr x"
  shows "x \<in> set xs"
proof -
  let ?i = "\<lfloor>r * of_nat (length xs)\<rfloor>"
  from assms have i: "0 \<le> ?i" "?i < int (length xs)" and x: "x = xs ! nat ?i"
    by (auto simp: random_element_def Let_def split: if_splits)
  from i have "nat ?i < length xs" by linarith
  then show ?thesis unfolding x by (rule nth_mem)
qed

lemma random_element_total:
  assumes "0 \<le> r" "r < 1" "xs \<noteq> []"
  shows "\<exists>x. random_element xs r = Inr x"
proof -
  let ?n = "of_nat (length xs) :: rat"
  have pos: "0 < ?n" using assms(3) by simp
  have "0 \<le> r * ?n" using assms(1) by simp
  then have lo: "0 \<le> \<lfloor>r * ?n\<rfloor>" by simp
  have "r * ?n < ?n" using assms(2) pos by simp
  then have "\<lfloor>r * ?n\<rfloor> < int (length xs)" by (simp add: floor_less_iff)
  then show ?thesis using lo by (simp add: random_element_def Let_def)
qed

lemma getFiltered_excludes:
  "q \<in> set (getFilteredQuestions qs rf df cf ex) \<Longrightarrow> q_id q \<notin> set ex \<and> q \<in> set qs"
  by (auto simp: getFilteredQuestions_def split: if_splits)

lemma fallback_candidates_subset:
  "set (fallback_candidates qs ctx avail) \<subseteq> set avail"
  by (auto simp: fallback_candidates_def Let_def)

lemma fallback_candidates_nonempty:
  "avail \<noteq> [] \<Longrightarrow> fallback_candidates qs ctx avail \<noteq> []"
  by (auto simp: fallback_candidates_def Let_def)

lemma set_sorted_candidates:
  "set (sorted_candidates qs ctx avail) = set (fallback_candidates qs ctx avail)"
  by (simp add: sorted_candidates_def Let_def set_sort_cmp)

lemma smartFallback_in_top:
  assumes "smartFallbackSelect qs r ctx avail = Inr res"
  shows "question res \<in> set (take 3 (sorted_candidates qs ctx avail))"
proof -
  let ?c = "sorted_candidates qs ctx avail"
  from assms obtain sel where sel: "random_element (take (min 3 (length ?c)) ?c) r = Inr sel"
    and res: "question res = sel"
    by (auto simp: smartFallbackSelect_def Let_def split: sum.splits)
  have "take (min 3 (length ?c)) ?c = take 3 ?c" by (simp add: min_def)
  then show ?thesis using random_element_in[OF sel] res by simp
qed

lemma smartFallback_in_avail:
  assumes "smartFallbackSelect qs r ctx avail = Inr res"
  shows "question res \<in> set avail"
proof -
  have "question res \<in> set (sorted_candidates qs ctx avail)"
    using smartFallback_in_top[OF assms] by (rule in_set_takeD)
  then show ?thesis
    using set_sorted_candidates[of qs ctx avail] fallback_candidates_subset[of qs ctx avail]
    by auto
qed

lemma smartFallback_total:
  assumes "0 \<le> r" "r < 1" "avail \<noteq> []"
  shows "\<exists>res. smartFallbackSelect qs r ctx avail = Inr res"
proof -
  let ?c = "sorted_candidates qs ctx avail"
  have "?c \<noteq> []"
    using fallback_candidates_nonempty[OF assms(3)] set_sorted_candidates[of qs ctx avail]
    by (metis set_empty)
  then have "take (min 3 (length ?c)) ?c \<noteq> []" by (cases ?c) auto
  then obtain x where "random_element (take (min 3 (length ?c)) ?c) r = Inr x"
    using random_element_total[OF assms(1,2)] by blast
  then show ?thesis by (simp add: smartFallbackSelect_def Let_def)
qed

lemma randomSelect_in: "randomSelect r qs = Inr res \<Longrightarrow> question res \<in> set qs"
  by (auto simp: randomSelect_def split: sum.splits dest: random_element_in)

lemma aiSelect_in:
  assumes "aiSelect qs reply r ctx avail = Inr res"
  shows "question res \<in> set avail"
proof (cases reply)
  case (Inl e)
  then show ?thesis using assms by (simp add: aiSelect_def)
next
  case (Inr response)
  show ?thesis
  proof (cases "find (\<lambda>q. str_includes (trim response) (q_id q)) avail")
    case None
    then show ?thesis using assms Inr smartFallback_in_avail
      by (simp add: aiSelect_def Let_def)
  next
    case (Some q)
    then have "q \<in> set avail" by (auto simp: find_Some_iff)
    then show ?thesis using assms Inr Some by (auto simp: aiSelect_def Let_def)
  qed
qed

lemma selectNextQuestion_in:
  assumes "selectNextQuestion model env qs reply r ctx = Inr (Some res)"
  shows "question res \<in> set (getFilteredQuestions qs (ctx_role ctx) (ctx_difficulty ctx) None (answeredQuestionIds ctx))
       \<or> question res \<in> set (getFilteredQuestions qs (ctx_role ctx) None None (answeredQuestionIds ctx))"
  using assms
  by (auto simp: selectNextQuestion_def Let_def map_sum_def
           split: if_splits sum.splits dest: randomSelect_in aiSelect_in smartFallback_in_avail)

lemma aiEvaluate_failures:
  "aiEvaluate (Inl e) = Inl e"
  "match_digits response = None \<Longrightarrow>
     aiEvaluate (Inr response) = Inl (Error (str ''Could not extract score from AI response''))"
  by (simp_all add: aiEvaluate_def)

lemma aiSelect_failures:
  "aiSelect qs (Inl e) r ctx avail = Inl e"
  "find (\<lambda>q. str_includes (trim response) (q_id q)) avail = None \<Longrightarrow>
     aiSelect qs (Inr response) r ctx avail = smartFallbackSelect qs r ctx avail"
  by (simp_all add: aiSelect_def Let_def)

lemma foldl_plus_sum_list: "foldl (\<lambda>a b. a + b) (a::rat) xs = a + sum_list xs"
  by (induction xs arbitrary: a) (simp_all add: add.assoc)

lemma avgScore_of_mean:
  "avgScore_of scores = (if scores = [] then 50 else sum_list scores / of_nat (length scores))"
  by (simp add: avgScore_of_def foldl_plus_sum_list)

lemma sorted_candidates_sorted:
  "sorted (map (\<lambda>q. indexOf (difficultyOrder (avgScore_of (recentScores ctx))) (difficulty (metadata q)))
             (sorted_candidates qs ctx avail))"
  unfolding sorted_candidates_def Let_def by (rule sorted_sort_key)

lemma sorted_candidates_stable:
  "filter (\<lambda>q. indexOf (difficultyOrder (avgScore_of (recentScores ctx))) (difficulty (metadata q)) = k)
     (sorted_candidates qs ctx avail)
   = filter (\<lambda>q. indexOf (difficultyOrder (avgScore_of (recentScores ctx))) (difficulty (metadata q)) = k)
       (fallback_candidates qs ctx avail)"
  unfolding sorted_candidates_def Let_def by (rule stable_sort_key)

lemma mset_sorted_candidates:
  "mset (sorted_candidates qs ctx avail) = mset (fallback_candidates qs ctx avail)"
  by (simp add: sorted_candidates_def Let_def mset_sort_cmp)

lemma indexOf_hard_first:
  "indexOf [str ''hard'', str ''medium'', str ''easy''] (str ''hard'') = 0"
  "indexOf [str ''hard'', str ''medium'', str ''easy''] (str ''easy'') = 2"
  by code_simp+

lemma hard_before_easy:
  assumes "recentScores ctx = [90, 85]"
    and "i < j" "j < length (sorted_candidates qs ctx avail)"
    and "difficulty (metadata (sorted_candidates qs ctx avail ! i)) = str ''easy''"
  shows "difficulty (metadata (sorted_candidates qs ctx avail ! j)) \<noteq> str ''hard''"
proof
  let ?srt = "sorted_candidates qs ctx avail"
  let ?key = "\<lambda>q. indexOf [str ''hard'', str ''medium'', str ''easy''] (difficulty (metadata q))"
  assume hard: "difficulty (metadata (?srt ! j)) = str ''hard''"
  have "difficultyOrder (avgScore_of (recentScores ctx)) = [str ''hard'', str ''medium'', str ''easy'']"
    using assms(1) by (simp add: difficultyOrder_def avgScore_of_def)
  then have "sorted (map ?key ?srt)"
    using sorted_candidates_sorted[of ctx qs avail] by simp
  then have "map ?key ?srt ! i \<le> map ?key ?srt ! j"
    using assms(2,3) by (simp add: sorted_iff_nth_mono)
  then have "?key (?srt ! i) \<le> ?key (?srt ! j)"
    using assms(2,3) by simp
  then show False unfolding hard assms(4) indexOf_hard_first by simp
qed

lemma readiness_formula:
  "readinessScore (calculateSessionFeedback (Some answers)) =
     min 100 (Math_round (6 / 10 * of_int (overallScore (calculateSessionFeedback (Some answers)))
                          + 4 * of_nat (min (length answers) 10)))"
proof (cases "answers = []")
  case True
  then show ?thesis using Math_round_of_int[of 0] by (simp add: calculateSessionFeedback_def)
next
  case False
  then show ?thesis by (simp add: calculateSessionFeedback_def Let_def mult.commute)
qed

section \<open>The heuristic evaluator on the worked example\<close>

text \<open>
  C1 (as amended). For the answer \<^verbatim>\<open>It's a function scoped variable that gets hoisted\<close>
  and the expected keywords \<^verbatim>\<open>scope,hoisting,block\<close> the evaluator matches only
  \<open>scope\<close> (the answer contains \<open>hoisted\<close>, not \<open>hoisting\<close>) and misses \<open>hoisting\<close>
  and \<open>block\<close>; the keyword score is 33, the answer has 8 words, the length score is 40,
  the structure score is 50 and the overall score is 39.
\<close>

theorem evaluateAnswer_example:
  "matchedKeywords (evaluateAnswer (Some (str ''It's a function scoped variable that gets hoisted''))
      \<lparr> expected_keywords = Some (str ''scope,hoisting,block''), ideal_answer = None \<rparr>) = [str ''scope'']
   \<and> missedKeywords (evaluateAnswer (Some (str ''It's a function scoped variable that gets hoisted''))
      \<lparr> expected_keywords = Some (str ''scope,hoisting,block''), ideal_answer = None \<rparr>)
        = [str ''hoisting'', str ''block'']
   \<and> keywordScore (evaluateAnswer (Some (str ''It's a function scoped variable that gets hoisted''))
      \<lparr> expected_keywords = Some (str ''scope,hoisting,block''), ideal_answer = None \<rparr>) = 33
   \<and> wordCount (evaluateAnswer (Some (str ''It's a function scoped variable that gets hoisted''))
      \<lparr> expected_keywords = Some (str ''scope,hoisting,block''), ideal_answer = None \<rparr>) = 8
   \<and> lengthScore 8 = 40
   \<and> structureScore (answerText (Some (str ''It's a function scoped variable that gets hoisted''))) = 50
   \<and> score (evaluateAnswer (Some (str ''It's a function scoped variable that gets hoisted''))
      \<lparr> expected_keywords = Some (str ''scope,hoisting,block''), ideal_answer = None \<rparr>) = 39"
  by code_simp

text \<open>
  The values stated for this example in C1 do not hold: the matched keywords are not
  \<open>{scope, hoisting}\<close>, the missed keywords are not \<open>{block}\<close>, the keyword score is
  not 67, the word count is not 9 and the overall score is not 56.
\<close>

theorem evaluateAnswer_example_refuted:
  "set (matchedKeywords (evaluateAnswer (Some (str ''It's a function scoped variable that gets hoisted''))
      \<lparr> expected_keywords = Some (str ''scope,hoisting,block''), ideal_answer = None \<rparr>))
     \<noteq> {str ''scope'', str ''hoisting''}
   \<and> set (missedKeywords (evaluateAnswer (Some (str ''It's a function scoped variable that gets hoisted''))
      \<lparr> expected_keywords = Some (str ''scope,hoisting,block''), ideal_answer = None \<rparr>)) \<noteq> {str ''block''}
   \<and> keywordScore (evaluateAnswer (Some (str ''It's a function scoped variable that gets hoisted''))
      \<lparr> expected_keywords = Some (str ''scope,hoisting,block''), ideal_answer = None \<rparr>) \<noteq> 67
   \<and> wordCount (evaluateAnswer (Some (str ''It's a function scoped variable that gets hoisted''))
      \<lparr> expected_keywords = Some (str ''scope,hoisting,block''), ideal_answer = None \<rparr>) \<noteq> 9
   \<and> score (evaluateAnswer (Some (str ''It's a function scoped variable that gets hoisted''))
      \<lparr> expected_keywords = Some (str ''scope,hoisting,block''), ideal_answer = None \<rparr>) \<noteq> 56"
  by code_simp

section \<open>Keyword score and invariants of the heuristic evaluator\<close>

text \<open>
  C2. The keyword score is meant to be 0 when there are no expected keywords; but
  splitting the empty keyword string gives one empty keyword, which every answer
  contains, so for an absent or empty keyword string the evaluator returns the keyword
  score 100 and reports the empty keyword as matched: the \<^verbatim>\<open>length > 0\<close> guard never
  takes its \<open>0\<close> branch.
\<close>

theorem keywordScore_without_keywords:
  "expectedKeywords_of None = [[]] \<and> expectedKeywords_of (Some []) = [[]]
   \<and> keywordScore (evaluateAnswer a \<lparr> expected_keywords = None, ideal_answer = i \<rparr>) = 100
   \<and> keywordScore (evaluateAnswer a \<lparr> expected_keywords = Some [], ideal_answer = i \<rparr>) = 100
   \<and> matchedKeywords (evaluateAnswer a \<lparr> expected_keywords = None, ideal_answer = i \<rparr>) = [[]]
   \<and> matchedKeywords (evaluateAnswer a \<lparr> expected_keywords = Some [], ideal_answer = i \<rparr>) = [[]]"
  using Math_round_of_int[of 100]
  by (simp add: keywordScore_field keywordScore_raw_empty matched_missed_fields
        expectedKeywords_of_empty matched_of_def str_includes_iff_sublist)



section \<open>The model evaluator\<close>

text \<open>
  C4. When a model is present and its call yields the model evaluation \<open>ai\<close>, the
  evaluator returns the score \<open>round (0.5 M + 0.5 H)\<close> for the model score \<open>M\<close> and
  the heuristic score \<open>H\<close>, takes the keyword score, matched and missed keywords, word
  count, strengths, weaknesses, suggestions and feedback of the heuristic result as
  they are, and sets the evaluation method to \<open>ai-blended\<close>.
\<close>

theorem blended_evaluation:
  assumes "AnswerEvaluator_initModel model env \<noteq> None"
    and "aiEvaluate reply = Inr ai"
  shows "AnswerEvaluator_evaluateAnswer model env reply answer qa =
           Inr \<lparr> score = Math_round (1 / 2 * of_int (ai_score ai)
                                       + 1 / 2 * of_int (score (evaluateAnswer answer (rule_question qa)))),
                 keywordScore = keywordScore (evaluateAnswer answer (rule_question qa)),
                 matchedKeywords = matchedKeywords (evaluateAnswer answer (rule_question qa)),
                 missedKeywords = missedKeywords (evaluateAnswer answer (rule_question qa)),
                 wordCount = wordCount (evaluateAnswer answer (rule_question qa)),
                 strengths = strengths (evaluateAnswer answer (rule_question qa)),
                 weaknesses = weaknesses (evaluateAnswer answer (rule_question qa)),
                 suggestions = suggestions (evaluateAnswer answer (rule_question qa)),
                 feedback = feedback (evaluateAnswer answer (rule_question qa)),
                 evaluationMethod = str ''ai-blended'' \<rparr>"
  using assms feedback_nonempty[of answer "rule_question qa"]
  by (simp add: AnswerEvaluator_evaluateAnswer_def Let_def blendEvaluations_def mult.commute)

text \<open>An instance of C4: the model says 81, the rules say 35, the blend is 58.\<close>

theorem blended_evaluation_witness:
  "AnswerEvaluator_initModel None example_env \<noteq> None
   \<and> map_sum id ai_score (aiEvaluate (Inr (str ''Score: 81 out of 100''))) = Inr 81
   \<and> score (evaluateAnswer (Some (str ''x'')) (rule_question (Row \<lparr> expected_keywords = Some (str ''x,y''), ideal_answer = None \<rparr>))) = 35
   \<and> map_sum id score (AnswerEvaluator_evaluateAnswer None example_env (Inr (str ''Score: 81 out of 100'')) (Some (str ''x''))
        (Row \<lparr> expected_keywords = Some (str ''x,y''), ideal_answer = None \<rparr>)) = Inr 58
   \<and> map_sum id evaluationMethod (AnswerEvaluator_evaluateAnswer None example_env (Inr (str ''Score: 81 out of 100'')) (Some (str ''x''))
        (Row \<lparr> expected_keywords = Some (str ''x,y''), ideal_answer = None \<rparr>)) = Inr (str ''ai-blended'')"
proof -
  have h1: "AnswerEvaluator_initModel None example_env \<noteq> None"
    by code_simp
  have h2: "aiEvaluate (Inr (str ''Score: 81 out of 100'')) =
              Inr \<lparr> ai_score = 81, ai_feedback = str ''Evaluated by AI'', ai_strengths = [],
                    ai_weaknesses = [], keyConceptsCovered = [], keyConceptsMissed = [],
                    ai_suggestions = [], ai_evaluationMethod = str ''ai'' \<rparr>"
    by code_simp
  have h3: "score (evaluateAnswer (Some (str ''x'')) (rule_question (Row \<lparr> expected_keywords = Some (str ''x,y''), ideal_answer = None \<rparr>))) = 35"
    by code_simp
  have h4: "Math_round (1 / 2 * of_int 81 + 1 / 2 * of_int 35) = 58"
    by code_simp
  show ?thesis
    using h1 h3 h4
      blended_evaluation[OF h1 h2, of "Some (str ''x'')" "Row \<lparr> expected_keywords = Some (str ''x,y''), ideal_answer = None \<rparr>"]
    by (simp add: h2)
qed

text \<open>
  C5 (as amended). Evaluate call, model present: when the model call fails, or its
  response contains no integer, the call returns the heuristic result tagged
  \<open>fallback\<close> if the fallback flag is enabled and passes the error on if it is disabled.
  Select call, model present and at least one candidate for the requested role and
  difficulty: when the model call fails, the call returns the heuristic fallback
  selection if the flag is enabled and passes the error on if it is disabled; when the
  response contains no candidate id, it returns the heuristic fallback selection
  whatever the flag says. Model absent (disabled): no call is made; the evaluate call
  returns the heuristic result tagged \<open>rules\<close>, and the select call with at least one
  candidate for the requested role and difficulty returns the heuristic fallback
  selection, whatever the flag says. Select call without a candidate for the requested
  role and difficulty: the model is not consulted; the call returns \<open>null\<close> when the role
  has no open question of any difficulty, and a random one of them otherwise.
\<close>

theorem model_failure_policy:
  "(AnswerEvaluator_initModel model env \<noteq> None \<longrightarrow>
      AnswerEvaluator_evaluateAnswer model env (Inl e) answer qa =
        (if shouldFallback env
         then Inr (with_method (evaluateAnswer answer (rule_question qa)) (str ''fallback''))
         else Inl e))
   \<and> (AnswerEvaluator_initModel model env \<noteq> None \<and> match_digits response = None \<longrightarrow>
      AnswerEvaluator_evaluateAnswer model env (Inr response) answer qa =
        (if shouldFallback env
         then Inr (with_method (evaluateAnswer answer (rule_question qa)) (str ''fallback''))
         else Inl (Error (str ''Could not extract score from AI response''))))
   \<and> (QuestionSelector_initModel model env \<noteq> None
        \<and> getFilteredQuestions qs (ctx_role ctx) (ctx_difficulty ctx) None (answeredQuestionIds ctx) \<noteq> [] \<longrightarrow>
      selectNextQuestion model env qs (Inl e) r ctx =
        (if shouldFallback env
         then map_sum (\<lambda>e. e) Some
                (smartFallbackSelect qs r ctx
                   (getFilteredQuestions qs (ctx_role ctx) (ctx_difficulty ctx) None (answeredQuestionIds ctx)))
         else Inl e))
   \<and> (QuestionSelector_initModel model env \<noteq> None
        \<and> getFilteredQuestions qs (ctx_role ctx) (ctx_difficulty ctx) None (answeredQuestionIds ctx) \<noteq> []
        \<and> find (\<lambda>q. str_includes (trim response') (q_id q))
             (getFilteredQuestions qs (ctx_role ctx) (ctx_difficulty ctx) None (answeredQuestionIds ctx)) = None \<longrightarrow>
      selectNextQuestion model env qs (Inr response') r ctx =
        map_sum (\<lambda>e. e) Some
          (smartFallbackSelect qs r ctx
             (getFilteredQuestions qs (ctx_role ctx) (ctx_difficulty ctx) None (answeredQuestionIds ctx))))
   \<and> (AnswerEvaluator_initModel model env = None \<longrightarrow>
      AnswerEvaluator_evaluateAnswer model env reply answer qa =
        Inr (with_method (evaluateAnswer answer (rule_question qa)) (str ''rules'')))
   \<and> (QuestionSelector_initModel model env = None
        \<and> getFilteredQuestions qs (ctx_role ctx) (ctx_difficulty ctx) None (answeredQuestionIds ctx) \<noteq> [] \<longrightarrow>
      selectNextQuestion model env qs reply r ctx =
        map_sum (\<lambda>e. e) Some
          (smartFallbackSelect qs r ctx
             (getFilteredQuestions qs (ctx_role ctx) (ctx_difficulty ctx) None (answeredQuestionIds ctx))))
   \<and> (getFilteredQuestions qs (ctx_role ctx) (ctx_difficulty ctx) None (answeredQuestionIds ctx) = [] \<longrightarrow>
      selectNextQuestion model env qs reply r ctx =
        (if getFilteredQuestions qs (ctx_role ctx) None None (answeredQuestionIds ctx) = [] then Inr None
         else map_sum (\<lambda>e. e) Some
                (randomSelect r
                   (getFilteredQuestions qs (ctx_role ctx) None None (answeredQuestionIds ctx)))))"
proof (intro conjI impI)
  assume "AnswerEvaluator_initModel model env \<noteq> None"
  then show "AnswerEvaluator_evaluateAnswer model env (Inl e) answer qa =
        (if shouldFallback env
         then Inr (with_method (evaluateAnswer answer (rule_question qa)) (str ''fallback''))
         else Inl e)"
    by (simp add: AnswerEvaluator_evaluateAnswer_def Let_def aiEvaluate_failures)
next
  assume "AnswerEvaluator_initModel model env \<noteq> None \<and> match_digits response = None"
  then show "AnswerEvaluator_evaluateAnswer model env (Inr response) answer qa =
        (if shouldFallback env
         then Inr (with_method (evaluateAnswer answer (rule_question qa)) (str ''fallback''))
         else Inl (Error (str ''Could not extract score from AI response'')))"
    by (simp add: AnswerEvaluator_evaluateAnswer_def Let_def aiEvaluate_failures)
next
  let ?avail = "getFilteredQuestions qs (ctx_role ctx) (ctx_difficulty ctx) None (answeredQuestionIds ctx)"
  assume "QuestionSelector_initModel model env \<noteq> None \<and> ?avail \<noteq> []"
  then show "selectNextQuestion model env qs (Inl e) r ctx =
        (if shouldFallback env
         then map_sum (\<lambda>e. e) Some (smartFallbackSelect qs r ctx ?avail)
         else Inl e)"
    by (simp add: selectNextQuestion_def Let_def aiSelect_failures)
next
  let ?avail = "getFilteredQuestions qs (ctx_role ctx) (ctx_difficulty ctx) None (answeredQuestionIds ctx)"
  assume a: "QuestionSelector_initModel model env \<noteq> None \<and> ?avail \<noteq> []
        \<and> find (\<lambda>q. str_includes (trim response') (q_id q)) ?avail = None"
  then have sel: "aiSelect qs (Inr response') r ctx ?avail = smartFallbackSelect qs r ctx ?avail"
    by (simp add: aiSelect_failures)
  show "selectNextQuestion model env qs (Inr response') r ctx =
        map_sum (\<lambda>e. e) Some (smartFallbackSelect qs r ctx ?avail)"
    using a by (cases "smartFallbackSelect qs r ctx ?avail")
      (simp_all add: selectNextQuestion_def Let_def sel)
next
  assume "AnswerEvaluator_initModel model env = None"
  then show "AnswerEvaluator_evaluateAnswer model env reply answer qa =
        Inr (with_method (evaluateAnswer answer (rule_question qa)) (str ''rules''))"
    by (simp add: AnswerEvaluator_evaluateAnswer_def Let_def)
next
  let ?avail = "getFilteredQuestions qs (ctx_role ctx) (ctx_difficulty ctx) None (answeredQuestionIds ctx)"
  assume "QuestionSelector_initModel model env = None \<and> ?avail \<noteq> []"
  then show "selectNextQuestion model env qs reply r ctx =
        map_sum (\<lambda>e. e) Some (smartFallbackSelect qs r ctx ?avail)"
    by (simp add: selectNextQuestion_def Let_def)
next
  let ?fb = "getFilteredQuestions qs (ctx_role ctx) None None (answeredQuestionIds ctx)"
  assume "getFilteredQuestions qs (ctx_role ctx) (ctx_difficulty ctx) None (answeredQuestionIds ctx) = []"
  then show "selectNextQuestion model env qs reply r ctx =
        (if ?fb = [] then Inr None else map_sum (\<lambda>e. e) Some (randomSelect r ?fb))"
    by (simp add: selectNextQuestion_def Let_def)
qed

text \<open>
  Instances of C5 with the fallback flag disabled, enabled, with the model disabled, and
  with no candidate at the requested difficulty.
\<close>

theorem model_failure_policy_witness:
  "AnswerEvaluator_initModel None example_env \<noteq> None
   \<and> AnswerEvaluator_initModel None example_env_fallback \<noteq> None
   \<and> shouldFallback example_env_fallback \<and> \<not> shouldFallback example_env
   \<and> match_digits (str ''no idea'') = None
   \<and> AnswerEvaluator_evaluateAnswer None example_env (Inl (Error (str ''fetch failed''))) (Some (str ''x''))
         (Row \<lparr> expected_keywords = Some (str ''x,y''), ideal_answer = None \<rparr>)
       = Inl (Error (str ''fetch failed''))
   \<and> AnswerEvaluator_evaluateAnswer None example_env_fallback (Inl (Error (str ''fetch failed'')))
         (Some (str ''x'')) (Row \<lparr> expected_keywords = Some (str ''x,y''), ideal_answer = None \<rparr>)
       = Inr (with_method (evaluateAnswer (Some (str ''x''))
                \<lparr> expected_keywords = Some (str ''x,y''), ideal_answer = Some [] \<rparr>) (str ''fallback''))
   \<and> AnswerEvaluator_evaluateAnswer None example_env (Inr (str ''no idea'')) (Some (str ''x''))
         (Row \<lparr> expected_keywords = Some (str ''x,y''), ideal_answer = None \<rparr>)
       = Inl (Error (str ''Could not extract score from AI response''))
   \<and> AnswerEvaluator_evaluateAnswer None example_env_fallback (Inr (str ''no idea'')) (Some (str ''x''))
         (Row \<lparr> expected_keywords = Some (str ''x,y''), ideal_answer = None \<rparr>)
       = Inr (with_method (evaluateAnswer (Some (str ''x''))
                \<lparr> expected_keywords = Some (str ''x,y''), ideal_answer = Some [] \<rparr>) (str ''fallback''))
   \<and> QuestionSelector_initModel None example_env \<noteq> None
   \<and> QuestionSelector_initModel None example_env_fallback \<noteq> None
   \<and> getFilteredQuestions example_bank (ctx_role example_ctx) (ctx_difficulty example_ctx) None
         (answeredQuestionIds example_ctx) = [example_doc (str ''q-5'') (str ''easy'') (str ''Architecture'')]
   \<and> selectNextQuestion None example_env example_bank (Inl (Error (str ''fetch failed''))) (1 / 2) example_ctx
       = Inl (Error (str ''fetch failed''))
   \<and> selectNextQuestion None example_env_fallback example_bank (Inl (Error (str ''fetch failed''))) (1 / 2)
         example_ctx
       = map_sum id Some (smartFallbackSelect example_bank (1 / 2) example_ctx
           [example_doc (str ''q-5'') (str ''easy'') (str ''Architecture'')])
   \<and> selectNextQuestion None example_env example_bank (Inr (str ''no idea'')) (1 / 2) example_ctx
       = map_sum id Some (smartFallbackSelect example_bank (1 / 2) example_ctx
           [example_doc (str ''q-5'') (str ''easy'') (str ''Architecture'')])
   \<and> smartFallbackSelect example_bank (1 / 2) example_ctx
         [example_doc (str ''q-5'') (str ''easy'') (str ''Architecture'')]
       = Inr \<lparr> question = example_doc (str ''q-5'') (str ''easy'') (str ''Architecture''),
               reasoning = str ''Selected based on topic diversity and difficulty appropriateness'',
               suggestedDifficulty = Some (str ''easy''),
               selectionMethod = str ''fallback'' \<rparr>
   \<and> AnswerEvaluator_initModel None example_env_disabled = None
   \<and> QuestionSelector_initModel None example_env_disabled = None
   \<and> AnswerEvaluator_evaluateAnswer None example_env_disabled (Inl (Error (str ''fetch failed'')))
         (Some (str ''x'')) (Row \<lparr> expected_keywords = Some (str ''x,y''), ideal_answer = None \<rparr>)
       = Inr (with_method (evaluateAnswer (Some (str ''x''))
                \<lparr> expected_keywords = Some (str ''x,y''), ideal_answer = Some [] \<rparr>) (str ''rules''))
   \<and> selectNextQuestion None example_env_disabled example_bank (Inl (Error (str ''fetch failed''))) (1 / 2)
         example_ctx
       = map_sum id Some (smartFallbackSelect example_bank (1 / 2) example_ctx
           [example_doc (str ''q-5'') (str ''easy'') (str ''Architecture'')])
   \<and> getFilteredQuestions example_bank (ctx_role example_ctx_medium) (ctx_difficulty example_ctx_medium)
         None (answeredQuestionIds example_ctx_medium) = []
   \<and> selectNextQuestion None example_env_disabled example_bank (Inl (Error (str ''fetch failed''))) (1 / 2)
         example_ctx_medium
       = Inr (Some \<lparr> question = example_doc (str ''q-4'') (str ''hard'') (str ''React''),
                     reasoning = str ''Randomly selected from available questions'',
                     suggestedDifficulty = Some (str ''hard''),
                     selectionMethod = str ''random'' \<rparr>)"
proof -
  let ?row = "Row \<lparr> expected_keywords = Some (str ''x,y''), ideal_answer = None \<rparr>"
  let ?avail = "getFilteredQuestions example_bank (ctx_role example_ctx) (ctx_difficulty example_ctx) None
         (answeredQuestionIds example_ctx)"
  let ?fb = "getFilteredQuestions example_bank (ctx_role example_ctx_medium) None None
         (answeredQuestionIds example_ctx_medium)"
  have e1: "AnswerEvaluator_initModel None example_env \<noteq> None"
    and e2: "AnswerEvaluator_initModel None example_env_fallback \<noteq> None"
    and q1: "QuestionSelector_initModel None example_env \<noteq> None"
    and q2: "QuestionSelector_initModel None example_env_fallback \<noteq> None"
    by code_simp+
  have n: "AnswerEvaluator_initModel None example_env_disabled = None"
    "QuestionSelector_initModel None example_env_disabled = None"
    by code_simp+
  have f: "shouldFallback example_env_fallback" "\<not> shouldFallback example_env"
    by code_simp+
  have d: "match_digits (str ''no idea'') = None" by code_simp
  have av: "?avail = [example_doc (str ''q-5'') (str ''easy'') (str ''Architecture'')]" by code_simp
  have ne: "?avail \<noteq> []" by (simp add: av)
  have nf: "find (\<lambda>q. str_includes (trim (str ''no idea'')) (q_id q)) ?avail = None"
    unfolding av by code_simp
  have rq: "rule_question ?row = \<lparr> expected_keywords = Some (str ''x,y''), ideal_answer = Some [] \<rparr>"
    by code_simp
  have sf: "smartFallbackSelect example_bank (1 / 2) example_ctx
         [example_doc (str ''q-5'') (str ''easy'') (str ''Architecture'')]
       = Inr \<lparr> question = example_doc (str ''q-5'') (str ''easy'') (str ''Architecture''),
               reasoning = str ''Selected based on topic diversity and difficulty appropriateness'',
               suggestedDifficulty = Some (str ''easy''),
               selectionMethod = str ''fallback'' \<rparr>"
    by code_simp
  have em: "getFilteredQuestions example_bank (ctx_role example_ctx_medium)
         (ctx_difficulty example_ctx_medium) None (answeredQuestionIds example_ctx_medium) = []"
    by code_simp
  have fbne: "?fb \<noteq> []" by code_simp
  have rs: "randomSelect (1 / 2) ?fb
       = Inr \<lparr> question = example_doc (str ''q-4'') (str ''hard'') (str ''React''),
               reasoning = str ''Randomly selected from available questions'',
               suggestedDifficulty = Some (str ''hard''),
               selectionMethod = str ''random'' \<rparr>"
    by code_simp
  note off = model_failure_policy[where model = None and env = example_env
      and e = "Error (str ''fetch failed'')" and answer = "Some (str ''x'')" and qa = ?row
      and response = "str ''no idea''" and qs = example_bank and ctx = example_ctx and r = "1 / 2"
      and response' = "str ''no idea''" and reply = "Inl (Error (str ''fetch failed''))"]
  note on = model_failure_policy[where model = None and env = example_env_fallback
      and e = "Error (str ''fetch failed'')" and answer = "Some (str ''x'')" and qa = ?row
      and response = "str ''no idea''" and qs = example_bank and ctx = example_ctx and r = "1 / 2"
      and response' = "str ''no idea''" and reply = "Inl (Error (str ''fetch failed''))"]
  note disabled = model_failure_policy[where model = None and env = example_env_disabled
      and e = "Error (str ''fetch failed'')" and answer = "Some (str ''x'')" and qa = ?row
      and response = "str ''no idea''" and qs = example_bank and ctx = example_ctx and r = "1 / 2"
      and response' = "str ''no idea''" and reply = "Inl (Error (str ''fetch failed''))"]
  note nocand = model_failure_policy[where model = None and env = example_env_disabled
      and e = "Error (str ''fetch failed'')" and answer = "Some (str ''x'')" and qa = ?row
      and response = "str ''no idea''" and qs = example_bank and ctx = example_ctx_medium and r = "1 / 2"
      and response' = "str ''no idea''" and reply = "Inl (Error (str ''fetch failed''))"]
  have last: "selectNextQuestion None example_env_disabled example_bank
         (Inl (Error (str ''fetch failed''))) (1 / 2) example_ctx_medium
       = Inr (Some \<lparr> question = example_doc (str ''q-4'') (str ''hard'') (str ''React''),
                     reasoning = str ''Randomly selected from available questions'',
                     suggestedDifficulty = Some (str ''hard''),
                     selectionMethod = str ''random'' \<rparr>)"
    using nocand em fbne by (simp add: rs)
  show ?thesis
    using off on disabled e1 e2 q1 q2 n f d ne nf em last
    by (simp add: av rq sf map_sum.identity id_def[symmetric])
qed

text \<open>
  C5 as stated fails for the select call: with the model enabled, the fallback flag
  disabled and a response that names no candidate, the select call returns the fallback
  selection and no error.
\<close>

theorem select_unparsed_reply_no_error:
  "\<not> shouldFallback example_env
   \<and> QuestionSelector_initModel None example_env \<noteq> None
   \<and> getFilteredQuestions example_bank (ctx_role example_ctx) (ctx_difficulty example_ctx) None
           (answeredQuestionIds example_ctx) = [example_doc (str ''q-5'') (str ''easy'') (str ''Architecture'')]
   \<and> \<not> str_includes (trim (str ''I cannot decide'')) (str ''q-5'')
   \<and> selectNextQuestion None example_env example_bank (Inr (str ''I cannot decide'')) (1 / 2) example_ctx
       = Inr (Some \<lparr> question = example_doc (str ''q-5'') (str ''easy'') (str ''Architecture''),
                     reasoning = str ''Selected based on topic diversity and difficulty appropriateness'',
                     suggestedDifficulty = Some (str ''easy''),
                     selectionMethod = str ''fallback'' \<rparr>)"
  by code_simp

section \<open>The adaptive selector\<close>

text \<open>
  C6. Whenever the selector returns a result, by any of its paths, the id of the
  returned question is not among the answered question ids of the context, and the
  question is one of the store.
\<close>

theorem selected_question_unanswered:
  assumes "selectNextQuestion model env qs reply r ctx = Inr (Some res)"
  shows "q_id (question res) \<notin> set (answeredQuestionIds ctx) \<and> question res \<in> set qs"
  using selectNextQuestion_in[OF assms] getFiltered_excludes by blast

text \<open>
  An instance of C6: the response names an answered question and an open one, and the
  open one is selected.
\<close>

theorem selected_question_unanswered_witness:
  "selectNextQuestion None example_env_fallback example_bank (Inr (str ''Pick q-1 or q-5'')) (1 / 2) example_ctx
     = Inr (Some \<lparr> question = example_doc (str ''q-5'') (str ''easy'') (str ''Architecture''), reasoning = str ''AI selected'',
                   suggestedDifficulty = None, selectionMethod = str ''ai'' \<rparr>)
   \<and> answeredQuestionIds example_ctx = [str ''q-1'']
   \<and> q_id (example_doc (str ''q-5'') (str ''easy'') (str ''Architecture'')) \<notin> set (answeredQuestionIds example_ctx)"
proof -
  have h: "selectNextQuestion None example_env_fallback example_bank (Inr (str ''Pick q-1 or q-5'')) (1 / 2) example_ctx
     = Inr (Some \<lparr> question = example_doc (str ''q-5'') (str ''easy'') (str ''Architecture''), reasoning = str ''AI selected'',
                   suggestedDifficulty = None, selectionMethod = str ''ai'' \<rparr>)"
    by code_simp
  have a: "answeredQuestionIds example_ctx = [str ''q-1'']" by (simp add: example_ctx_def)
  show ?thesis using h a selected_question_unanswered[OF h] by simp
qed

text \<open>
  C7. In the heuristic fallback selection, with the average the mean of the recent
  scores (50 when there are none) and the preference order chosen by the thresholds 70
  and 50, the sorted candidates are ordered by the index of their difficulty in the
  preference order, are a rearrangement of the candidates, and keep candidates of equal
  index in their original order; a returned question is one of the first three sorted
  candidates; a question is returned when the random number is in \<open>[0, 1)\<close> and there is
  a candidate; and with the recent scores 90 and 85 no easy candidate stands before a
  hard one.
\<close>

theorem fallback_selection_order:
  "(let avg = (if recentScores ctx = [] then 50
               else sum_list (recentScores ctx) / of_nat (length (recentScores ctx)));
        order = (if avg \<ge> 70 then [str ''hard'', str ''medium'', str ''easy'']
                 else if avg \<ge> 50 then [str ''medium'', str ''easy'', str ''hard'']
                 else [str ''easy'', str ''medium'', str ''hard'']);
        key = (\<lambda>q. indexOf order (difficulty (metadata q)));
        cands = fallback_candidates qs ctx avail;
        srt = sorted_candidates qs ctx avail
    in sorted (map key srt)
       \<and> mset srt = mset cands
       \<and> (\<forall>k. filter (\<lambda>q. key q = k) srt = filter (\<lambda>q. key q = k) cands)
       \<and> (\<forall>res. smartFallbackSelect qs r ctx avail = Inr res \<longrightarrow>
             question res \<in> set (take 3 srt) \<and> selectionMethod res = str ''fallback'')
       \<and> (0 \<le> r \<and> r < 1 \<and> avail \<noteq> [] \<longrightarrow> (\<exists>res. smartFallbackSelect qs r ctx avail = Inr res))
       \<and> (recentScores ctx = [90, 85] \<longrightarrow>
             (\<forall>i j. i < j \<and> j < length srt \<and> difficulty (metadata (srt ! i)) = str ''easy''
                \<longrightarrow> difficulty (metadata (srt ! j)) \<noteq> str ''hard'')))"
proof -
  have ord: "difficultyOrder (avgScore_of (recentScores ctx)) =
     (if (if recentScores ctx = [] then 50
          else sum_list (recentScores ctx) / of_nat (length (recentScores ctx))) \<ge> 70
      then [str ''hard'', str ''medium'', str ''easy'']
      else if (if recentScores ctx = [] then 50
               else sum_list (recentScores ctx) / of_nat (length (recentScores ctx))) \<ge> 50
      then [str ''medium'', str ''easy'', str ''hard'']
      else [str ''easy'', str ''medium'', str ''hard''])"
    by (simp only: difficultyOrder_def avgScore_of_mean)
  have meth: "selectionMethod res = str ''fallback''"
    if "smartFallbackSelect qs r ctx avail = Inr res" for res
    using that by (auto simp: smartFallbackSelect_def Let_def split: sum.splits)
  show ?thesis
    unfolding Let_def ord[symmetric]
    using sorted_candidates_sorted[of ctx qs avail] mset_sorted_candidates[of qs ctx avail]
      sorted_candidates_stable[of ctx _ qs avail] smartFallback_in_top[of qs r ctx avail]
      smartFallback_total[of r avail qs ctx] hard_before_easy[of ctx _ _ qs avail] meth
    by blast
qed

text \<open>An instance of C7 on the example bank.\<close>

theorem fallback_selection_order_witness:
  "(0::rat) \<le> 1 / 2 \<and> (1 / 2 :: rat) < 1 \<and> example_bank \<noteq> []
   \<and> recentScores example_ctx = [90, 85]
   \<and> map q_id (fallback_candidates example_bank example_ctx example_bank) = [str ''q-3'', str ''q-4'', str ''q-5'']
   \<and> map q_id (sorted_candidates example_bank example_ctx example_bank) = [str ''q-4'', str ''q-3'', str ''q-5'']
   \<and> map (\<lambda>q. difficulty (metadata q)) (sorted_candidates example_bank example_ctx example_bank)
        = [str ''hard'', str ''medium'', str ''easy'']
   \<and> smartFallbackSelect example_bank (1 / 2) example_ctx example_bank
        = Inr \<lparr> question = example_doc (str ''q-3'') (str ''medium'') (str ''React''),
                reasoning = str ''Selected based on topic diversity and difficulty appropriateness'',
                suggestedDifficulty = Some (str ''medium''), selectionMethod = str ''fallback'' \<rparr>
   \<and> example_doc (str ''q-3'') (str ''medium'') (str ''React'')
        \<in> set (take 3 (sorted_candidates example_bank example_ctx example_bank))"
proof -
  have r: "(0::rat) \<le> 1 / 2" "(1 / 2 :: rat) < 1" by simp_all
  have b: "example_bank \<noteq> []" by (simp add: example_bank_def)
  have s: "recentScores example_ctx = [90, 85]" by (simp add: example_ctx_def)
  have c: "map q_id (fallback_candidates example_bank example_ctx example_bank) = [str ''q-3'', str ''q-4'', str ''q-5'']"
    by code_simp
  have o: "map q_id (sorted_candidates example_bank example_ctx example_bank) = [str ''q-4'', str ''q-3'', str ''q-5'']"
    by code_simp
  have d: "map (\<lambda>q. difficulty (metadata q)) (sorted_candidates example_bank example_ctx example_bank)
        = [str ''hard'', str ''medium'', str ''easy'']"
    by code_simp
  have h: "smartFallbackSelect example_bank (1 / 2) example_ctx example_bank
        = Inr \<lparr> question = example_doc (str ''q-3'') (str ''medium'') (str ''React''),
                reasoning = str ''Selected based on topic diversity and difficulty appropriateness'',
                suggestedDifficulty = Some (str ''medium''), selectionMethod = str ''fallback'' \<rparr>"
    by code_simp
  have "\<forall>res. smartFallbackSelect example_bank (1 / 2) example_ctx example_bank = Inr res \<longrightarrow>
          question res \<in> set (take 3 (sorted_candidates example_bank example_ctx example_bank))
          \<and> selectionMethod res = str ''fallback''"
    using fallback_selection_order[of example_ctx example_bank example_bank "1 / 2"]
    unfolding Let_def by blast
  then have "example_doc (str ''q-3'') (str ''medium'') (str ''React'')
        \<in> set (take 3 (sorted_candidates example_bank example_ctx example_bank))"
    using h by fastforce
  then show ?thesis using r b s c o d h by simp
qed

section \<open>Session feedback\<close>

text \<open>
  C8. Aggregating the answers A:80, A:60, B:30 gives the topic scores A:70 and B:30, the
  strengths A, the weaknesses B, the overall score 57 and the readiness score 46; and
  for every list of answers the readiness score is
  \<open>min 100 (round (0.6 * overallScore + 4 * min answerCount 10))\<close>.
\<close>

theorem session_feedback_example:
  "topicScores (calculateSessionFeedback (Some
       [\<lparr> a_score = Some 80, a_topic = Some (str ''A'') \<rparr>, \<lparr> a_score = Some 60, a_topic = Some (str ''A'') \<rparr>,
        \<lparr> a_score = Some 30, a_topic = Some (str ''B'') \<rparr>])) = [(str ''A'', 70), (str ''B'', 30)]
   \<and> sf_strengths (calculateSessionFeedback (Some
       [\<lparr> a_score = Some 80, a_topic = Some (str ''A'') \<rparr>, \<lparr> a_score = Some 60, a_topic = Some (str ''A'') \<rparr>,
        \<lparr> a_score = Some 30, a_topic = Some (str ''B'') \<rparr>])) = [str ''A'']
   \<and> sf_weaknesses (calculateSessionFeedback (Some
       [\<lparr> a_score = Some 80, a_topic = Some (str ''A'') \<rparr>, \<lparr> a_score = Some 60, a_topic = Some (str ''A'') \<rparr>,
        \<lparr> a_score = Some 30, a_topic = Some (str ''B'') \<rparr>])) = [str ''B'']
   \<and> overallScore (calculateSessionFeedback (Some
       [\<lparr> a_score = Some 80, a_topic = Some (str ''A'') \<rparr>, \<lparr> a_score = Some 60, a_topic = Some (str ''A'') \<rparr>,
        \<lparr> a_score = Some 30, a_topic = Some (str ''B'') \<rparr>])) = 57
   \<and> readinessScore (calculateSessionFeedback (Some
       [\<lparr> a_score = Some 80, a_topic = Some (str ''A'') \<rparr>, \<lparr> a_score = Some 60, a_topic = Some (str ''A'') \<rparr>,
        \<lparr> a_score = Some 30, a_topic = Some (str ''B'') \<rparr>])) = 46
   \<and> readinessScore (calculateSessionFeedback (Some answers)) =
       min 100 (Math_round (6 / 10 * of_int (overallScore (calculateSessionFeedback (Some answers)))
                            + 4 * of_nat (min (length answers) 10)))"
proof -
  have "calculateSessionFeedback (Some
       [\<lparr> a_score = Some 80, a_topic = Some (str ''A'') \<rparr>, \<lparr> a_score = Some 60, a_topic = Some (str ''A'') \<rparr>,
        \<lparr> a_score = Some 30, a_topic = Some (str ''B'') \<rparr>])
     = \<lparr> overallScore = 57, topicScores = [(str ''A'', 70), (str ''B'', 30)], sf_strengths = [str ''A''],
         sf_weaknesses = [str ''B''],
         recommendations = [str ''Focus on improving: B'', str ''Good foundation, now work on depth and examples''],
         readinessScore = 46 \<rparr>"
    by code_simp
  then show ?thesis using readiness_formula[of answers] by simp
qed

text \<open>An instance of the readiness formula with an answer that has no score.\<close>

theorem session_feedback_example_witness:
  "readinessScore (calculateSessionFeedback (Some
       [\<lparr> a_score = Some 100, a_topic = Some (str ''A'') \<rparr>, \<lparr> a_score = None, a_topic = None \<rparr>])) = 68
   \<and> overallScore (calculateSessionFeedback (Some
       [\<lparr> a_score = Some 100, a_topic = Some (str ''A'') \<rparr>, \<lparr> a_score = None, a_topic = None \<rparr>])) = 100
   \<and> min 100 (Math_round (6 / 10 * of_int 100 + 4 * of_nat (min (length
       [\<lparr> a_score = Some 100, a_topic = Some (str ''A'') \<rparr>, \<lparr> a_score = None, a_topic = None \<rparr>]) 10))) = 68"
proof -
  have o: "overallScore (calculateSessionFeedback (Some
       [\<lparr> a_score = Some 100, a_topic = Some (str ''A'') \<rparr>, \<lparr> a_score = None, a_topic = None \<rparr>])) = 100"
    by code_simp
  have m: "min 100 (Math_round (6 / 10 * of_int 100 + 4 * of_nat (min (length
       [\<lparr> a_score = Some 100, a_topic = Some (str ''A'') \<rparr>, \<lparr> a_score = None, a_topic = None \<rparr>]) 10))) = 68"
    by code_simp
  show ?thesis
    using o m session_feedback_example[of
       "[\<lparr> a_score = Some 100, a_topic = Some (str ''A'') \<rparr>, \<lparr> a_score = None, a_topic = None \<rparr>]"]
    by simp
qed

section \<open>Monotonicity and the floor of the score\<close>




text \<open>
  C10. The overall score is at least 10 for every input: the structure score is 50 or
  100 and enters with weight 0.2, the keyword and length parts are not negative. The
  value 10 is reached, for instance by the empty or absent answer to a question with
  one keyword.
\<close>

theorem score_floor:
  "10 \<le> score (evaluateAnswer a q)
   \<and> (structureScore t = 50 \<or> structureScore t = 100)
   \<and> 0 \<le> keywordScore_raw a (expected_keywords q) * (1 / 2)
   \<and> 0 \<le> lengthScore (wordCount_of (answerText a)) * (3 / 10)
   \<and> score (evaluateAnswer (Some []) \<lparr> expected_keywords = Some (str ''closure''), ideal_answer = None \<rparr>) = 10
   \<and> score (evaluateAnswer None \<lparr> expected_keywords = Some (str ''closure''), ideal_answer = None \<rparr>) = 10"
proof -
  have "10 \<le> score (evaluateAnswer a q)" using score_bounds[of a q] by simp
  moreover have "structureScore t = 50 \<or> structureScore t = 100"
    by (simp add: structureScore_def)
  moreover have "0 \<le> keywordScore_raw a (expected_keywords q) * (1 / 2)"
    using keywordScore_raw_bounds[of a "expected_keywords q"] by simp
  moreover have "0 \<le> lengthScore (wordCount_of (answerText a)) * (3 / 10)"
    using lengthScore_bounds[of "wordCount_of (answerText a)"] by simp
  moreover have "score (evaluateAnswer (Some []) \<lparr> expected_keywords = Some (str ''closure''), ideal_answer = None \<rparr>) = 10"
    by code_simp
  moreover have "score (evaluateAnswer None \<lparr> expected_keywords = Some (str ''closure''), ideal_answer = None \<rparr>) = 10"
    by code_simp
  ultimately show ?thesis by simp
qed

end
